theory Spec2Isabelle
  imports Main
begin

section \<open>Citizen affiliation service: the transfer state machine\<close>

text \<open>
  A shallow embedding of the service layer (\<^verbatim>\<open>affiliation/services\<close>), the event
  consumers (\<^verbatim>\<open>affiliation/rabbitmq\<close>), the models and the post-save signal.

  Conventions of the embedding:
  \<^item> The two tables are maps keyed by \<^verbatim>\<open>citizen_id\<close> (unique in the source; the
    affiliation is one-to-one with its citizen, so it is keyed by the citizen's id too).
  \<^item> Every storage write, every publish attempt and every outgoing POST is appended to a
    trace, in program order.
  \<^item> The collaborators are an environment: whether the broker accepts an event, what an
    HTTP call answers (or that it raises), the clock reading, and the settings.
  \<^item> Exceptions are branches: a missing row, a missing related affiliation, an insert the
    storage layer refuses (the uniqueness of \<^verbatim>\<open>citizen_id\<close>, a null in a NOT NULL column,
    or a fault of the storage layer, which the environment decides), a raising HTTP call,
    and \<^verbatim>\<open>int(citizen_id)\<close> on a string that is no integer literal. An update or a
    delete of an existing row is taken to succeed.
  \<^item> Strings are over the code points 0 to 255.
  \<^item> The columns Django maintains by itself (\<^verbatim>\<open>created_at\<close>, \<^verbatim>\<open>updated_at\<close>,
    \<^verbatim>\<open>affiliated_at\<close>, \<^verbatim>\<open>status_changed_at\<close>) are left out; the timestamps the code
    writes are kept.
\<close>

subsection \<open>Models\<close>

datatype verification = VERIFICATION_PENDING | VERIFICATION_VERIFIED | VERIFICATION_FAILED

text \<open>The status strings the code writes (the last three are outside the declared choices).\<close>

datatype aff_status =
  AFFILIATED | TRANSFERRING | TRANSFERRED | CANCELLED | PENDING | FAILED | PENDING_DELETION

type_synonym timestamp = nat

type_synonym url_documents = "(string \<times> string list) list"

datatype vmessage =
    WaitingForMintic
  | WaitingForDocumentsAndMintic
  | RegisteredInMintic
  | RegistrationFailedWithCode int
  | UnregisterFailed string
  | WaitingForUnregister

record citizen =
  name :: string
  address :: string
  email :: string
  operator_id :: string
  operator_name :: string
  is_registered :: bool
  is_verified :: bool
  verification_status :: verification
  pending_deletion :: bool
  verification_message :: "vmessage option"

record affiliation =
  aff_operator_id :: string
  aff_operator_name :: string
  status :: aff_status
  transfer_destination_operator_id :: "string option"
  transfer_destination_operator_name :: "string option"
  transfer_destination_api_url :: "string option"
  aff_notes :: "string option"
  transfer_source_operator_id :: "string option"
  transfer_source_operator_name :: "string option"
  transfer_confirmation_url :: "string option"
  transfer_started_at :: "timestamp option"
  transfer_completed_at :: "timestamp option"
  documents_ready :: bool

subsection \<open>Events, HTTP calls and the trace\<close>

datatype event =
    AffiliationCreated int
  | UserTransferred int
  | DocumentsDownloadRequested int url_documents
  | RegisterCitizenRequested int string string string string string
  | UnregisterCitizenRequested int string string

datatype http_body =
    ConfirmationBody int int
  | TransferBody int string string url_documents string

datatype table = CitizenTable | AffiliationTable

datatype effect =
    CitizenSaved string citizen
  | AffiliationSaved string affiliation
  | AffiliationDeleted string
  | CitizenDeleted string
  | Published event bool
  | HttpPost string http_body "int option"

record world =
  citizens :: "string \<rightharpoonup> citizen"
  affiliations :: "string \<rightharpoonup> affiliation"
  trace :: "effect list"

text \<open>
  \<open>broker e\<close>: what \<^verbatim>\<open>publish_*\<close> returns for \<open>e\<close> (the publisher catches every
  exception and returns False). \<open>http_post url body\<close>: the status code of the response,
  or \<open>None\<close> when \<^verbatim>\<open>requests.post\<close> raises. \<open>http_get url\<close>: status code and body text,
  or \<open>None\<close> when \<^verbatim>\<open>requests.get\<close> raises. \<open>document_service\<close>: what
  \<^verbatim>\<open>_get_citizen_documents\<close> returns (the empty dict on any failure).
  \<open>insert_fault t cid\<close>: the storage layer refuses the insert of the row of \<open>cid\<close> into
  table \<open>t\<close> (\<^verbatim>\<open>objects.create\<close> raises), for a reason other than the constraints
  the model states itself.
\<close>

record env =
  broker :: "event \<Rightarrow> bool"
  http_post :: "string \<Rightarrow> http_body \<Rightarrow> int option"
  http_get :: "string \<Rightarrow> (int \<times> string) option"
  document_service :: "string \<Rightarrow> url_documents"
  insert_fault :: "table \<Rightarrow> string \<Rightarrow> bool"
  clock :: timestamp
  OPERATOR_ID :: string
  OPERATOR_NAME :: string
  TRANSFER_CONFIRMATION_URL :: string
  GOVCARPETA_API_URL :: string

subsection \<open>Results\<close>

datatype exn =
  ValueError | RelatedObjectDoesNotExist | IntegrityError | DatabaseError | RequestException

datatype msg =
    CitizenAlreadyExists string
  | TransferRequestReceived string
  | ErrorProcessingTransfer exn
  | DocumentsReadyWaitingForMintic string
  | CitizenNotFound string
  | ErrorCompletingTransfer exn
  | NotBeingTransferred string
  | TransferCompleted string
  | WaitingFor "string list"
  | ErrorCheckingCompletion exn
  | TargetUrlNotFound
  | FailedToSendTransfer int
  | TransferSent string
  | ErrorContinuingTransfer exn
  | CannotBeTransferred string aff_status
  | FailedToInitiateTransfer
  | TransferInitiated string
  | ErrorSendingTransfer exn
  | TransferredAndDeleted string
  | TransferFailedRolledBack string
  | ErrorHandlingConfirmation exn
  | AlreadyRegisteredAndVerified string
  | AlreadyRegisteredWaiting string
  | ExternalMessage string
  | ExternalNotFound string
  | ErrorValidating exn
  | RegisteredLocally
  | ErrorRegistering exn
  | AlreadyPendingDeletion string
  | ErrorProcessingDeletion exn
  | FailedToPublishUnregister
  | MarkedForDeletion

record result =
  success :: bool
  message :: msg

definition ok :: "msg \<Rightarrow> result" where
  "ok m = \<lparr>success = True, message = m\<rparr>"

definition fail :: "msg \<Rightarrow> result" where
  "fail m = \<lparr>success = False, message = m\<rparr>"

subsection \<open>Python's \<^verbatim>\<open>int(str)\<close> and truthiness\<close>

text \<open>
  The blanks \<^verbatim>\<open>int()\<close> skips at both ends: tab to carriage return, space, U+0085 and
  U+00A0 (not U+001C to U+001F, which \<^verbatim>\<open>str.strip\<close> would remove).
\<close>

definition is_space :: "char \<Rightarrow> bool" where
  "is_space c = (let n = (of_char c :: nat)
                 in (9 \<le> n \<and> n \<le> 13) \<or> n = 32 \<or> n = 133 \<or> n = 160)"

definition is_digit :: "char \<Rightarrow> bool" where
  "is_digit c = (let n = (of_char c :: nat) in 48 \<le> n \<and> n \<le> 57)"

definition digit_value :: "char \<Rightarrow> nat" where
  "digit_value c = of_char c - 48"

text \<open>Decimal digits, single underscores allowed between two digits.\<close>

fun digits_value :: "nat \<Rightarrow> string \<Rightarrow> nat option" where
  "digits_value acc [] = None"
| "digits_value acc [c] = (if is_digit c then Some (10 * acc + digit_value c) else None)"
| "digits_value acc (c # d # ds) =
     (if \<not> is_digit c then None
      else if d = CHR ''_'' then digits_value (10 * acc + digit_value c) ds
      else digits_value (10 * acc + digit_value c) (d # ds))"

definition strip :: "string \<Rightarrow> string" where
  "strip s = rev (dropWhile is_space (rev (dropWhile is_space s)))"

text \<open>The default of \<^verbatim>\<open>sys.int_max_str_digits\<close>: more digits than this is a ValueError.\<close>

definition max_str_digits :: nat where
  "max_str_digits = 4300"

definition unsigned_int :: "string \<Rightarrow> nat option" where
  "unsigned_int s =
     (if length (filter is_digit s) > max_str_digits then None else digits_value 0 s)"

text \<open>\<open>None\<close> is the ValueError.\<close>

definition py_int :: "string \<Rightarrow> int option" where
  "py_int s =
     (case strip s of
        [] \<Rightarrow> None
      | c # cs \<Rightarrow>
          if c = CHR ''-'' then map_option (\<lambda>n. - int n) (unsigned_int cs)
          else if c = CHR ''+'' then map_option int (unsigned_int cs)
          else map_option int (unsigned_int (c # cs)))"

text \<open>\<^verbatim>\<open>if url:\<close> on a nullable string column.\<close>

definition truthy :: "string option \<Rightarrow> bool" where
  "truthy u = (case u of None \<Rightarrow> False | Some s \<Rightarrow> s \<noteq> [])"

subsection \<open>Storage and publisher primitives\<close>

definition save_citizen :: "string \<Rightarrow> citizen \<Rightarrow> world \<Rightarrow> world" where
  "save_citizen cid c w =
     w\<lparr>citizens := (citizens w)(cid \<mapsto> c), trace := trace w @ [CitizenSaved cid c]\<rparr>"

definition save_affiliation :: "string \<Rightarrow> affiliation \<Rightarrow> world \<Rightarrow> world" where
  "save_affiliation cid a w =
     w\<lparr>affiliations := (affiliations w)(cid \<mapsto> a), trace := trace w @ [AffiliationSaved cid a]\<rparr>"

definition delete_affiliation_row :: "string \<Rightarrow> world \<Rightarrow> world" where
  "delete_affiliation_row cid w =
     w\<lparr>affiliations := (affiliations w)(cid := None), trace := trace w @ [AffiliationDeleted cid]\<rparr>"

text \<open>Deleting a citizen cascades to its affiliation (\<^verbatim>\<open>on_delete=CASCADE\<close>).\<close>

definition delete_citizen_row :: "string \<Rightarrow> world \<Rightarrow> world" where
  "delete_citizen_row cid w =
     w\<lparr>citizens := (citizens w)(cid := None),
       affiliations := (affiliations w)(cid := None),
       trace := trace w @ [CitizenDeleted cid]\<rparr>"

definition publish :: "env \<Rightarrow> event \<Rightarrow> world \<Rightarrow> bool \<times> world" where
  "publish e ev w = (broker e ev, w\<lparr>trace := trace w @ [Published ev (broker e ev)]\<rparr>)"

text \<open>
  \<^verbatim>\<open>signals.citizen_post_save\<close>: on a created, registered citizen publish
  affiliation.created; an id that is no integer is caught and logged there.
\<close>

definition citizen_post_save :: "env \<Rightarrow> bool \<Rightarrow> string \<Rightarrow> citizen \<Rightarrow> world \<Rightarrow> world" where
  "citizen_post_save e created cid c w =
     (if created \<and> is_registered c then
        (case py_int cid of
           None \<Rightarrow> w
         | Some n \<Rightarrow> snd (publish e (AffiliationCreated n) w))
      else w)"

text \<open>\<^verbatim>\<open>Citizen.objects.create\<close> on an id that is not stored yet, with its signal.\<close>

definition create_citizen :: "env \<Rightarrow> string \<Rightarrow> citizen \<Rightarrow> world \<Rightarrow> world" where
  "create_citizen e cid c w = citizen_post_save e True cid c (save_citizen cid c w)"

subsection \<open>\<^verbatim>\<open>TransferService\<close>\<close>

text \<open>
  The payload as the view hands it over: the four required keys are present, and
  \<^verbatim>\<open>citizenName\<close>, \<^verbatim>\<open>citizenEmail\<close> and \<^verbatim>\<open>confirmAPI\<close> may be null. \<open>td_id\<close> is
  \<^verbatim>\<open>str(transfer_data["id"])\<close>.
\<close>

record transfer_data =
  td_id :: string
  citizenName :: "string option"
  citizenEmail :: "string option"
  urlDocuments :: "url_documents option"
  confirmAPI :: "string option"

record target_operator =
  tgt_operator_id :: string
  tgt_operator_name :: string
  tgt_api_url :: string

text \<open>
  \<^verbatim>\<open>_send_confirmation\<close>: one POST of \<^verbatim>\<open>{id, req_status}\<close>; whatever goes wrong
  (the id conversion, the request) is caught and logged.
\<close>

definition send_confirmation :: "env \<Rightarrow> string \<Rightarrow> string \<Rightarrow> int \<Rightarrow> world \<Rightarrow> world" where
  "send_confirmation e confirmation_url cid st w =
     (case py_int cid of
        None \<Rightarrow> w
      | Some n \<Rightarrow>
          w\<lparr>trace := trace w @
               [HttpPost confirmation_url (ConfirmationBody n st)
                  (http_post e confirmation_url (ConfirmationBody n st))]\<rparr>)"

definition waiting_for :: "bool \<Rightarrow> bool \<Rightarrow> string list" where
  "waiting_for docs_ready mintic_verified =
     (if \<not> docs_ready then [''documents''] else []) @
     (if \<not> mintic_verified then [''MINTIC verification''] else [])"

definition check_and_complete_transfer :: "env \<Rightarrow> string \<Rightarrow> world \<Rightarrow> result \<times> world" where
  "check_and_complete_transfer e cid w =
     (case citizens w cid of
        None \<Rightarrow> (fail (CitizenNotFound cid), w)
      | Some c \<Rightarrow>
          (case affiliations w cid of
             None \<Rightarrow> (fail (ErrorCheckingCompletion RelatedObjectDoesNotExist), w)
           | Some a \<Rightarrow>
               if status a \<noteq> TRANSFERRING then (fail (NotBeingTransferred cid), w)
               else if documents_ready a \<and> is_verified c then
                 (let w1 = save_citizen cid (c\<lparr>is_registered := True\<rparr>) w;
                      a1 = a\<lparr>status := AFFILIATED, transfer_completed_at := Some (clock e)\<rparr>;
                      w2 = save_affiliation cid a1 w1;
                      w3 = (case transfer_confirmation_url a1 of
                              None \<Rightarrow> w2
                            | Some u \<Rightarrow> if u \<noteq> [] then send_confirmation e u cid 1 w2 else w2)
                  in (case py_int cid of
                        None \<Rightarrow> (fail (ErrorCheckingCompletion ValueError), w3)
                      | Some n \<Rightarrow>
                          (ok (TransferCompleted cid), snd (publish e (AffiliationCreated n) w3))))
               else (fail (WaitingFor (waiting_for (documents_ready a) (is_verified c))), w)))"

text \<open>
  \<^verbatim>\<open>receive_transfer\<close>. The Citizen insert is refused on a null name or e-mail (NOT NULL)
  or on a fault, before the citizen exists, so the handler has nothing to undo; a failure
  after it (the Affiliation insert refused, the id no integer) deletes the citizen again.
\<close>

definition receive_transfer :: "env \<Rightarrow> transfer_data \<Rightarrow> world \<Rightarrow> result \<times> world" where
  "receive_transfer e td w =
     (let cid = td_id td in
      if citizens w cid \<noteq> None then (fail (CitizenAlreadyExists cid), w)
      else
        (case (citizenName td, citizenEmail td) of
           (Some citizen_name, Some citizen_email) \<Rightarrow>
             if insert_fault e CitizenTable cid
             then (fail (ErrorProcessingTransfer DatabaseError), w)
             else
               (let c = \<lparr>name = citizen_name, address = [], email = citizen_email,
                         operator_id = OPERATOR_ID e, operator_name = OPERATOR_NAME e,
                         is_registered = False, is_verified = False,
                         verification_status = VERIFICATION_PENDING, pending_deletion = False,
                         verification_message = Some WaitingForDocumentsAndMintic\<rparr>;
                    w1 = create_citizen e cid c w;
                    a = \<lparr>aff_operator_id = OPERATOR_ID e, aff_operator_name = OPERATOR_NAME e,
                         status = TRANSFERRING,
                         transfer_destination_operator_id = None,
                         transfer_destination_operator_name = None,
                         transfer_destination_api_url = None,
                         aff_notes = None,
                         transfer_source_operator_id = None,
                         transfer_source_operator_name = None,
                         transfer_confirmation_url = confirmAPI td,
                         transfer_started_at = Some (clock e),
                         transfer_completed_at = None,
                         documents_ready = False\<rparr>
                in if insert_fault e AffiliationTable cid
                   then (fail (ErrorProcessingTransfer DatabaseError), delete_citizen_row cid w1)
                   else
                     (let w2 = save_affiliation cid a w1
                      in (case py_int cid of
                            None \<Rightarrow>
                              (fail (ErrorProcessingTransfer ValueError), delete_citizen_row cid w2)
                          | Some n \<Rightarrow>
                              (ok (TransferRequestReceived cid),
                               snd (publish e
                                      (DocumentsDownloadRequested n
                                         (case urlDocuments td of None \<Rightarrow> [] | Some u \<Rightarrow> u))
                                      w2)))))
         | _ \<Rightarrow> (fail (ErrorProcessingTransfer IntegrityError), w)))"

definition complete_transfer_after_documents :: "env \<Rightarrow> string \<Rightarrow> world \<Rightarrow> result \<times> world" where
  "complete_transfer_after_documents e cid w =
     (case citizens w cid of
        None \<Rightarrow> (fail (CitizenNotFound cid), w)
      | Some c \<Rightarrow>
          (case affiliations w cid of
             None \<Rightarrow> (fail (ErrorCompletingTransfer RelatedObjectDoesNotExist), w)
           | Some a \<Rightarrow>
               (let w1 = save_affiliation cid (a\<lparr>documents_ready := True\<rparr>) w
                in (case py_int cid of
                      None \<Rightarrow> (fail (ErrorCompletingTransfer ValueError), w1)
                    | Some n \<Rightarrow>
                        (let w2 = snd (publish e
                                         (RegisterCitizenRequested n (name c) (address c) (email c)
                                            (OPERATOR_ID e) (OPERATOR_NAME e)) w1);
                             w3 = snd (check_and_complete_transfer e cid w2)
                         in (ok (DocumentsReadyWaitingForMintic cid), w3))))))"

text \<open>
  The POST of \<^verbatim>\<open>continue_transfer_after_unregister\<close> and what follows it: a raising
  request is the generic error, a status outside \<^verbatim>\<open>[200, 201]\<close> is a failure, and nothing
  is written either way.
\<close>

definition post_transfer :: "env \<Rightarrow> string \<Rightarrow> string \<Rightarrow> http_body \<Rightarrow> world \<Rightarrow> result \<times> world" where
  "post_transfer e cid target_api_url transfer_payload w =
     (let response = http_post e target_api_url transfer_payload;
          w1 = w\<lparr>trace := trace w @ [HttpPost target_api_url transfer_payload response]\<rparr>
      in (case response of
            None \<Rightarrow> (fail (ErrorContinuingTransfer RequestException), w1)
          | Some status_code \<Rightarrow>
              if status_code \<notin> set [200, 201]
              then (fail (FailedToSendTransfer status_code), w1)
              else (ok (TransferSent cid), w1)))"

definition continue_transfer_after_unregister :: "env \<Rightarrow> string \<Rightarrow> world \<Rightarrow> result \<times> world" where
  "continue_transfer_after_unregister e cid w =
     (case citizens w cid of
        None \<Rightarrow> (fail (CitizenNotFound cid), w)
      | Some c \<Rightarrow>
          (case affiliations w cid of
             None \<Rightarrow> (fail (ErrorContinuingTransfer RelatedObjectDoesNotExist), w)
           | Some a \<Rightarrow>
               if status a \<noteq> TRANSFERRING then (fail (NotBeingTransferred cid), w)
               else
                 (let url_docs = document_service e cid in
                  case py_int cid of
                    None \<Rightarrow> (fail (ErrorContinuingTransfer ValueError), w)
                  | Some n \<Rightarrow>
                      (let transfer_payload =
                             TransferBody n (name c) (email c) url_docs (TRANSFER_CONFIRMATION_URL e)
                       in if \<not> truthy (transfer_destination_api_url a)
                          then (fail TargetUrlNotFound, w)
                          else post_transfer e cid (the (transfer_destination_api_url a))
                                 transfer_payload w))))"

definition send_transfer :: "env \<Rightarrow> string \<Rightarrow> target_operator \<Rightarrow> world \<Rightarrow> result \<times> world" where
  "send_transfer e cid tgt w =
     (case citizens w cid of
        None \<Rightarrow> (fail (CitizenNotFound cid), w)
      | Some c \<Rightarrow>
          (case affiliations w cid of
             None \<Rightarrow> (fail (ErrorSendingTransfer RelatedObjectDoesNotExist), w)
           | Some a \<Rightarrow>
               if status a \<noteq> AFFILIATED then (fail (CannotBeTransferred cid (status a)), w)
               else
                 (let a1 = a\<lparr>status := TRANSFERRING,
                              transfer_destination_operator_id := Some (tgt_operator_id tgt),
                              transfer_destination_operator_name := Some (tgt_operator_name tgt),
                              transfer_destination_api_url := Some (tgt_api_url tgt),
                              transfer_started_at := Some (clock e)\<rparr>;
                      w1 = save_affiliation cid a1 w
                  in (case py_int cid of
                        None \<Rightarrow> (fail (ErrorSendingTransfer ValueError), w1)
                      | Some n \<Rightarrow>
                          (let (published, w2) =
                                 publish e (UnregisterCitizenRequested n (OPERATOR_ID e) (OPERATOR_NAME e)) w1
                           in if \<not> published then
                                (fail FailedToInitiateTransfer,
                                 save_affiliation cid
                                   (a1\<lparr>status := AFFILIATED,
                                        transfer_destination_operator_id := None,
                                        transfer_destination_operator_name := None\<rparr>) w2)
                              else (ok (TransferInitiated cid), w2))))))"

definition handle_transfer_confirmation :: "env \<Rightarrow> string \<Rightarrow> int \<Rightarrow> world \<Rightarrow> result \<times> world" where
  "handle_transfer_confirmation e cid req_status w =
     (case citizens w cid of
        None \<Rightarrow> (fail (CitizenNotFound cid), w)
      | Some c \<Rightarrow>
          (case affiliations w cid of
             None \<Rightarrow> (fail (ErrorHandlingConfirmation RelatedObjectDoesNotExist), w)
           | Some a \<Rightarrow>
               if req_status = 1 then
                 (let w1 = save_affiliation cid
                             (a\<lparr>status := TRANSFERRED, transfer_completed_at := Some (clock e)\<rparr>) w
                  in (case py_int cid of
                        None \<Rightarrow> (fail (ErrorHandlingConfirmation ValueError), w1)
                      | Some n \<Rightarrow>
                          (let w2 = snd (publish e (UserTransferred n) w1);
                               w3 = delete_affiliation_row cid w2;
                               w4 = delete_citizen_row cid w3
                           in (ok (TransferredAndDeleted cid), w4))))
               else
                 (fail (TransferFailedRolledBack cid),
                  save_affiliation cid
                    (a\<lparr>status := AFFILIATED,
                       transfer_destination_operator_id := None,
                       transfer_destination_operator_name := None\<rparr>) w)))"

subsection \<open>\<^verbatim>\<open>CitizenService\<close>\<close>

record citizen_data =
  citizen_id :: string
  cd_name :: string
  cd_address :: string
  cd_email :: string
  cd_operator_id :: string
  cd_operator_name :: string

text \<open>\<^verbatim>\<open>validate_citizen\<close>: the pair is (\<^verbatim>\<open>exists\<close>, \<^verbatim>\<open>message\<close>).\<close>

definition validate_citizen :: "env \<Rightarrow> string \<Rightarrow> bool \<times> msg" where
  "validate_citizen e cid =
     (case http_get e (GOVCARPETA_API_URL e @ ''/apis/validateCitizen/'' @ cid) of
        None \<Rightarrow> (False, ErrorValidating RequestException)
      | Some (status_code, text) \<Rightarrow>
          if status_code = 200 \<and> text \<noteq> [] then (True, ExternalMessage text)
          else (False, ExternalNotFound cid))"

text \<open>The local rejection at the head of \<^verbatim>\<open>register_citizen\<close>.\<close>

definition already_registered :: "world \<Rightarrow> string \<Rightarrow> msg option" where
  "already_registered w cid =
     (case citizens w cid of
        None \<Rightarrow> None
      | Some existing \<Rightarrow>
          if is_verified existing then Some (AlreadyRegisteredAndVerified cid)
          else if verification_status existing = VERIFICATION_PENDING
          then Some (AlreadyRegisteredWaiting cid)
          else None)"

text \<open>
  \<^verbatim>\<open>register_citizen\<close>. The two inserts are separate statements in one \<^verbatim>\<open>try\<close>; the
  handler only logs and returns failure, so whatever was written before the exception
  stays written.
\<close>

definition register_citizen :: "env \<Rightarrow> citizen_data \<Rightarrow> world \<Rightarrow> result \<times> world" where
  "register_citizen e cd w =
     (let cid = citizen_id cd in
      case already_registered w cid of
        Some m \<Rightarrow> (fail m, w)
      | None \<Rightarrow>
          (let validation = validate_citizen e cid in
           if fst validation then (fail (snd validation), w)
           else if citizens w cid \<noteq> None then (fail (ErrorRegistering IntegrityError), w)
           else if insert_fault e CitizenTable cid then (fail (ErrorRegistering DatabaseError), w)
           else
             (let c = \<lparr>name = cd_name cd, address = cd_address cd, email = cd_email cd,
                       operator_id = cd_operator_id cd, operator_name = cd_operator_name cd,
                       is_registered = True, is_verified = False,
                       verification_status = VERIFICATION_PENDING, pending_deletion = False,
                       verification_message = Some WaitingForMintic\<rparr>;
                  w1 = create_citizen e cid c w;
                  a = \<lparr>aff_operator_id = cd_operator_id cd, aff_operator_name = cd_operator_name cd,
                       status = PENDING,
                       transfer_destination_operator_id = None,
                       transfer_destination_operator_name = None,
                       transfer_destination_api_url = None,
                       aff_notes = None,
                       transfer_source_operator_id = None,
                       transfer_source_operator_name = None,
                       transfer_confirmation_url = None,
                       transfer_started_at = None,
                       transfer_completed_at = None,
                       documents_ready = False\<rparr>
              in if insert_fault e AffiliationTable cid
                 then (fail (ErrorRegistering DatabaseError), w1)
                 else
                   (let w2 = save_affiliation cid a w1
                    in (case py_int cid of
                          None \<Rightarrow> (fail (ErrorRegistering ValueError), w2)
                        | Some n \<Rightarrow>
                            (ok RegisteredLocally,
                             snd (publish e
                                    (RegisterCitizenRequested n (cd_name cd) (cd_address cd)
                                       (cd_email cd) (cd_operator_id cd) (cd_operator_name cd))
                                    w2)))))))"

definition delete_affiliation :: "env \<Rightarrow> string \<Rightarrow> world \<Rightarrow> result \<times> world" where
  "delete_affiliation e cid w =
     (case citizens w cid of
        None \<Rightarrow> (fail (CitizenNotFound cid), w)
      | Some c \<Rightarrow>
          if pending_deletion c then (fail (AlreadyPendingDeletion cid), w)
          else
            (let c1 = c\<lparr>pending_deletion := True, verification_message := Some WaitingForUnregister\<rparr>;
                 w1 = save_citizen cid c1 w;
                 affiliation = affiliations w1 cid;
                 w2 = (case affiliation of
                         None \<Rightarrow> w1
                       | Some a \<Rightarrow> save_affiliation cid (a\<lparr>status := PENDING_DELETION\<rparr>) w1)
             in (case py_int cid of
                   None \<Rightarrow> (fail (ErrorProcessingDeletion ValueError), w2)
                 | Some n \<Rightarrow>
                     (let (published, w3) =
                            publish e (UnregisterCitizenRequested n (operator_id c) (operator_name c)) w2
                      in if \<not> published then
                           (let w4 = save_citizen cid
                                       (c1\<lparr>pending_deletion := False, verification_message := None\<rparr>) w3;
                                w5 = (case affiliation of
                                        None \<Rightarrow> w4
                                      | Some a \<Rightarrow>
                                          save_affiliation cid (a\<lparr>status := AFFILIATED\<rparr>) w4)
                            in (fail FailedToPublishUnregister, w5))
                         else (ok MarkedForDeletion, w3)))))"

subsection \<open>Event consumers\<close>

record register_completed =
  rc_id :: string
  statusCode :: int

record unregister_completed =
  uc_id :: string
  uc_success :: bool
  uc_message :: string
  uc_error_message :: "string option"

definition handle_register_citizen_completed :: "env \<Rightarrow> register_completed \<Rightarrow> world \<Rightarrow> world" where
  "handle_register_citizen_completed e m w =
     (let cid = rc_id m in
      if cid = [] then w
      else
        (case citizens w cid of
           None \<Rightarrow> w
         | Some c \<Rightarrow>
             if statusCode m = 201 then
               (let w1 = save_citizen cid
                           (c\<lparr>is_verified := True,
                              verification_status := VERIFICATION_VERIFIED,
                              verification_message := Some RegisteredInMintic\<rparr>) w
                in (case affiliations w1 cid of
                      None \<Rightarrow> w1
                    | Some a \<Rightarrow>
                        if status a = TRANSFERRING
                        then snd (check_and_complete_transfer e cid w1)
                        else save_affiliation cid (a\<lparr>status := AFFILIATED\<rparr>) w1))
             else
               (let w1 = save_citizen cid
                           (c\<lparr>is_verified := False,
                              verification_status := VERIFICATION_FAILED,
                              verification_message :=
                                Some (RegistrationFailedWithCode (statusCode m))\<rparr>) w
                in (case affiliations w1 cid of
                      None \<Rightarrow> w1
                    | Some a \<Rightarrow> save_affiliation cid (a\<lparr>status := FAILED\<rparr>) w1))))"

definition handle_unregister_citizen_completed ::
  "env \<Rightarrow> unregister_completed \<Rightarrow> world \<Rightarrow> world" where
  "handle_unregister_citizen_completed e m w =
     (let cid = uc_id m in
      if cid = [] then w
      else
        (case citizens w cid of
           None \<Rightarrow> w
         | Some c \<Rightarrow>
             if uc_success m then
               (let affiliation = affiliations w cid in
                if affiliation \<noteq> None \<and> status (the affiliation) = TRANSFERRING
                then snd (continue_transfer_after_unregister e cid w)
                else
                  (let w1 = (case py_int cid of
                               None \<Rightarrow> w
                             | Some n \<Rightarrow> snd (publish e (UserTransferred n) w));
                       w2 = (if affiliation \<noteq> None then delete_affiliation_row cid w1 else w1)
                   in delete_citizen_row cid w2))
             else
               (let error_msg = (case uc_error_message m of None \<Rightarrow> uc_message m | Some t \<Rightarrow> t);
                    w1 = save_citizen cid
                           (c\<lparr>pending_deletion := False,
                              verification_message := Some (UnregisterFailed error_msg)\<rparr>) w
                in (case affiliations w1 cid of
                      None \<Rightarrow> w1
                    | Some a \<Rightarrow> save_affiliation cid (a\<lparr>status := AFFILIATED\<rparr>) w1))))"

subsection \<open>Event sequences and observations\<close>

definition registered_201 :: "string \<Rightarrow> register_completed" where
  "registered_201 cid = \<lparr>rc_id = cid, statusCode = 201\<rparr>"

text \<open>documents.ready handled first (under \<open>e1\<close>), register.citizen.completed second (under \<open>e2\<close>).\<close>

definition documents_then_register :: "env \<Rightarrow> env \<Rightarrow> string \<Rightarrow> world \<Rightarrow> world" where
  "documents_then_register e1 e2 cid w =
     handle_register_citizen_completed e2 (registered_201 cid)
       (snd (complete_transfer_after_documents e1 cid w))"

text \<open>The reverse order.\<close>

definition register_then_documents :: "env \<Rightarrow> env \<Rightarrow> string \<Rightarrow> world \<Rightarrow> world" where
  "register_then_documents e1 e2 cid w =
     snd (complete_transfer_after_documents e2 cid
            (handle_register_citizen_completed e1 (registered_201 cid) w))"

text \<open>receive_transfer, then documents.ready, then register.citizen.completed with 201.\<close>

definition round_trip :: "env \<Rightarrow> env \<Rightarrow> env \<Rightarrow> transfer_data \<Rightarrow> world \<Rightarrow> world" where
  "round_trip e0 e1 e2 td w =
     documents_then_register e1 e2 (td_id td) (snd (receive_transfer e0 td w))"

fun is_post :: "effect \<Rightarrow> bool" where
  "is_post (HttpPost url body response) = True"
| "is_post x = False"

definition posts :: "effect list \<Rightarrow> effect list" where
  "posts t = filter is_post t"

text \<open>An affiliation with the completion timestamp blanked, to compare two runs up to it.\<close>

definition without_completed_at :: "affiliation option \<Rightarrow> affiliation option" where
  "without_completed_at x = map_option (\<lambda>a. a\<lparr>transfer_completed_at := None\<rparr>) x"

text \<open>The invariant of the Citizen model.\<close>

definition verified_consistent :: "world \<Rightarrow> bool" where
  "verified_consistent w =
     (\<forall>cid c. citizens w cid = Some c \<longrightarrow>
        (is_verified c \<longleftrightarrow> verification_status c = VERIFICATION_VERIFIED))"

text \<open>What \<^verbatim>\<open>receive_transfer\<close> stores for a payload, and the confirmation POST of the gate.\<close>

definition received_citizen :: "env \<Rightarrow> string \<Rightarrow> string \<Rightarrow> citizen" where
  "received_citizen e citizen_name citizen_email =
     \<lparr>name = citizen_name, address = [], email = citizen_email,
      operator_id = OPERATOR_ID e, operator_name = OPERATOR_NAME e,
      is_registered = False, is_verified = False,
      verification_status = VERIFICATION_PENDING, pending_deletion = False,
      verification_message = Some WaitingForDocumentsAndMintic\<rparr>"

definition received_affiliation :: "env \<Rightarrow> transfer_data \<Rightarrow> affiliation" where
  "received_affiliation e td =
     \<lparr>aff_operator_id = OPERATOR_ID e, aff_operator_name = OPERATOR_NAME e,
      status = TRANSFERRING,
      transfer_destination_operator_id = None,
      transfer_destination_operator_name = None,
      transfer_destination_api_url = None,
      aff_notes = None,
      transfer_source_operator_id = None,
      transfer_source_operator_name = None,
      transfer_confirmation_url = confirmAPI td,
      transfer_started_at = Some (clock e),
      transfer_completed_at = None,
      documents_ready = False\<rparr>"

definition confirmation_post :: "env \<Rightarrow> string option \<Rightarrow> int \<Rightarrow> effect list" where
  "confirmation_post e url n =
     (case url of
        None \<Rightarrow> []
      | Some u \<Rightarrow>
          if u = [] then []
          else [HttpPost u (ConfirmationBody n 1) (http_post e u (ConfirmationBody n 1))])"

text \<open>Reading a trace: deletions and publications.\<close>

fun is_deletion :: "effect \<Rightarrow> bool" where
  "is_deletion (AffiliationDeleted cid) = True"
| "is_deletion (CitizenDeleted cid) = True"
| "is_deletion x = False"

fun is_publication :: "effect \<Rightarrow> bool" where
  "is_publication (Published ev accepted) = True"
| "is_publication x = False"

text \<open>Some event is published later in the trace than some deletion.\<close>

fun emission_after_deletion :: "effect list \<Rightarrow> bool" where
  "emission_after_deletion [] = False"
| "emission_after_deletion (x # xs) =
     ((is_deletion x \<and> list_ex is_publication xs) \<or> emission_after_deletion xs)"

text \<open>What \<^verbatim>\<open>register_citizen\<close> stores for a registration.\<close>

definition registered_citizen :: "citizen_data \<Rightarrow> citizen" where
  "registered_citizen cd =
     \<lparr>name = cd_name cd, address = cd_address cd, email = cd_email cd,
      operator_id = cd_operator_id cd, operator_name = cd_operator_name cd,
      is_registered = True, is_verified = False,
      verification_status = VERIFICATION_PENDING, pending_deletion = False,
      verification_message = Some WaitingForMintic\<rparr>"

definition pending_affiliation :: "citizen_data \<Rightarrow> affiliation" where
  "pending_affiliation cd =
     \<lparr>aff_operator_id = cd_operator_id cd, aff_operator_name = cd_operator_name cd,
      status = PENDING,
      transfer_destination_operator_id = None,
      transfer_destination_operator_name = None,
      transfer_destination_api_url = None,
      aff_notes = None,
      transfer_source_operator_id = None,
      transfer_source_operator_name = None,
      transfer_confirmation_url = None,
      transfer_started_at = None,
      transfer_completed_at = None,
      documents_ready = False\<rparr>"

subsection \<open>Sample data\<close>

definition sample_env :: env where
  "sample_env =
     \<lparr>broker = (\<lambda>ev. True),
      http_post = (\<lambda>url body. Some 200),
      http_get = (\<lambda>url. Some (404, [])),
      document_service = (\<lambda>cid. []),
      insert_fault = (\<lambda>t cid. False),
      clock = 7,
      OPERATOR_ID = ''op-1'',
      OPERATOR_NAME = ''Operator One'',
      TRANSFER_CONFIRMATION_URL = ''http://op-1/confirm'',
      GOVCARPETA_API_URL = ''http://gov''\<rparr>"

definition broker_down_env :: env where
  "broker_down_env = sample_env\<lparr>broker := (\<lambda>ev. False)\<rparr>"

text \<open>The storage layer refuses every insert into the affiliations table.\<close>

definition affiliation_fault_env :: env where
  "affiliation_fault_env = sample_env\<lparr>insert_fault := (\<lambda>t cid. t = AffiliationTable)\<rparr>"

definition no_content_env :: env where
  "no_content_env = sample_env\<lparr>http_post := (\<lambda>url body. Some 204)\<rparr>"

definition sample_citizen :: citizen where
  "sample_citizen =
     \<lparr>name = ''Ana'', address = ''Cra 44'', email = ''ana@example.com'',
      operator_id = ''op-1'', operator_name = ''Operator One'',
      is_registered = True, is_verified = True,
      verification_status = VERIFICATION_VERIFIED, pending_deletion = False,
      verification_message = Some RegisteredInMintic\<rparr>"

definition sample_affiliation :: affiliation where
  "sample_affiliation =
     \<lparr>aff_operator_id = ''op-1'', aff_operator_name = ''Operator One'',
      status = AFFILIATED,
      transfer_destination_operator_id = None,
      transfer_destination_operator_name = None,
      transfer_destination_api_url = None,
      aff_notes = None,
      transfer_source_operator_id = None,
      transfer_source_operator_name = None,
      transfer_confirmation_url = None,
      transfer_started_at = None,
      transfer_completed_at = None,
      documents_ready = False\<rparr>"

definition empty_world :: world where
  "empty_world = \<lparr>citizens = Map.empty, affiliations = Map.empty, trace = []\<rparr>"

text \<open>Citizen 111, verified and AFFILIATED.\<close>

definition affiliated_world :: world where
  "affiliated_world =
     \<lparr>citizens = [''111'' \<mapsto> sample_citizen],
      affiliations = [''111'' \<mapsto> sample_affiliation],
      trace = []\<rparr>"

definition sample_target :: target_operator where
  "sample_target =
     \<lparr>tgt_operator_id = ''op-2'', tgt_operator_name = ''Operator Two'',
      tgt_api_url = ''http://op-2/receive''\<rparr>"

text \<open>Citizen 111 in an outgoing transfer to \<open>sample_target\<close>.\<close>

definition outgoing_world :: world where
  "outgoing_world =
     \<lparr>citizens = [''111'' \<mapsto> sample_citizen],
      affiliations = [''111'' \<mapsto>
         sample_affiliation\<lparr>status := TRANSFERRING,
           transfer_destination_operator_id := Some ''op-2'',
           transfer_destination_operator_name := Some ''Operator Two'',
           transfer_destination_api_url := Some ''http://op-2/receive'',
           transfer_started_at := Some 7\<rparr>],
      trace = []\<rparr>"

text \<open>Citizen 111 whose external registration failed.\<close>

definition failed_world :: world where
  "failed_world =
     \<lparr>citizens = [''111'' \<mapsto>
         sample_citizen\<lparr>is_verified := False, verification_status := VERIFICATION_FAILED,
           verification_message := Some (RegistrationFailedWithCode 501)\<rparr>],
      affiliations = [''111'' \<mapsto> sample_affiliation\<lparr>status := FAILED\<rparr>],
      trace = []\<rparr>"

text \<open>Citizen 111 in an incoming transfer, documents ready and verified, no callback URL.\<close>

definition ready_world :: world where
  "ready_world =
     \<lparr>citizens = [''111'' \<mapsto> sample_citizen\<lparr>is_registered := False\<rparr>],
      affiliations = [''111'' \<mapsto>
         sample_affiliation\<lparr>status := TRANSFERRING, documents_ready := True\<rparr>],
      trace = []\<rparr>"

definition sample_transfer :: transfer_data where
  "sample_transfer =
     \<lparr>td_id = ''999'', citizenName = Some ''Luis'', citizenEmail = Some ''luis@example.com'',
      urlDocuments = Some [(''URL1'', [''http://source/doc1''])],
      confirmAPI = Some ''http://source/confirm''\<rparr>"

definition transfer_without_callback :: transfer_data where
  "transfer_without_callback = sample_transfer\<lparr>confirmAPI := Some []\<rparr>"

definition sample_registration :: citizen_data where
  "sample_registration =
     \<lparr>citizen_id = ''111'', cd_name = ''Ana'', cd_address = ''Cra 44'',
      cd_email = ''ana@example.com'', cd_operator_id = ''op-1'',
      cd_operator_name = ''Operator One''\<rparr>"

text \<open>A registration under an id that is no integer.\<close>

definition lettered_registration :: citizen_data where
  "lettered_registration = sample_registration\<lparr>citizen_id := ''abc''\<rparr>"

text \<open>
  What the operations make of it: registered (the rows are kept although the call fails),
  documents reported ready, verified by a 201, and sent to \<open>sample_target\<close>.
\<close>

definition lettered_pending_world :: world where
  "lettered_pending_world = snd (register_citizen sample_env lettered_registration empty_world)"

definition lettered_ready_world :: world where
  "lettered_ready_world =
     snd (send_transfer sample_env ''abc'' sample_target
            (handle_register_citizen_completed sample_env (registered_201 ''abc'')
               (snd (complete_transfer_after_documents sample_env ''abc''
                       lettered_pending_world))))"

definition unregister_failed :: unregister_completed where
  "unregister_failed =
     \<lparr>uc_id = ''111'', uc_success = False, uc_message = ''MINTIC unregister failed'',
      uc_error_message = None\<rparr>"

section \<open>Properties\<close>

subsection \<open>Basic facts\<close>

lemma py_int_111: "py_int ''111'' = Some 111"
  by (simp add: py_int_def unsigned_int_def max_str_digits_def strip_def is_space_def
        is_digit_def digit_value_def)

lemma py_int_999: "py_int ''999'' = Some 999"
  by (simp add: py_int_def unsigned_int_def max_str_digits_def strip_def is_space_def
        is_digit_def digit_value_def)

lemma py_int_abc: "py_int ''abc'' = None"
  by (simp add: py_int_def unsigned_int_def max_str_digits_def strip_def is_space_def
        is_digit_def digit_value_def)

text \<open>Blanks at the ends are skipped; U+001C is none of them.\<close>

lemma py_int_padded: "py_int '' 42 '' = Some 42"
  by (simp add: py_int_def unsigned_int_def max_str_digits_def strip_def is_space_def
        is_digit_def digit_value_def)

lemma py_int_file_separator: "py_int [CHR 0x1C, CHR ''5''] = None"
  by (simp add: py_int_def unsigned_int_def max_str_digits_def strip_def is_space_def
        is_digit_def digit_value_def)

text \<open>More than 4300 digits are refused, leading zeros included.\<close>

lemma py_int_too_long: "py_int (CHR ''0'' # replicate 4300 (CHR ''0'')) = None"
proof -
  have s: "strip (CHR ''0'' # replicate 4300 (CHR ''0'')) = CHR ''0'' # replicate 4300 (CHR ''0'')"
    by (simp add: strip_def is_space_def dropWhile_replicate dropWhile_append)
  have u: "unsigned_int (CHR ''0'' # replicate 4300 (CHR ''0'')) = None"
    by (simp add: unsigned_int_def max_str_digits_def is_digit_def)
  show ?thesis by (simp add: py_int_def s u)
qed

lemma py_int_nonempty: "py_int s = Some n \<Longrightarrow> s \<noteq> []"
  by (auto simp: py_int_def strip_def)

lemma save_citizen_sel [simp]:
  "citizens (save_citizen cid c w) = (citizens w)(cid \<mapsto> c)"
  "affiliations (save_citizen cid c w) = affiliations w"
  "trace (save_citizen cid c w) = trace w @ [CitizenSaved cid c]"
  by (simp_all add: save_citizen_def)

lemma save_affiliation_sel [simp]:
  "citizens (save_affiliation cid a w) = citizens w"
  "affiliations (save_affiliation cid a w) = (affiliations w)(cid \<mapsto> a)"
  "trace (save_affiliation cid a w) = trace w @ [AffiliationSaved cid a]"
  by (simp_all add: save_affiliation_def)

lemma delete_affiliation_row_sel [simp]:
  "citizens (delete_affiliation_row cid w) = citizens w"
  "affiliations (delete_affiliation_row cid w) = (affiliations w)(cid := None)"
  "trace (delete_affiliation_row cid w) = trace w @ [AffiliationDeleted cid]"
  by (simp_all add: delete_affiliation_row_def)

lemma delete_citizen_row_sel [simp]:
  "citizens (delete_citizen_row cid w) = (citizens w)(cid := None)"
  "affiliations (delete_citizen_row cid w) = (affiliations w)(cid := None)"
  "trace (delete_citizen_row cid w) = trace w @ [CitizenDeleted cid]"
  by (simp_all add: delete_citizen_row_def)

lemma publish_sel [simp]:
  "citizens (snd (publish e ev w)) = citizens w"
  "affiliations (snd (publish e ev w)) = affiliations w"
  "trace (snd (publish e ev w)) = trace w @ [Published ev (broker e ev)]"
  "fst (publish e ev w) = broker e ev"
  by (simp_all add: publish_def)

lemma send_confirmation_sel [simp]:
  "citizens (send_confirmation e u cid st w) = citizens w"
  "affiliations (send_confirmation e u cid st w) = affiliations w"
  by (simp_all add: send_confirmation_def split: option.splits)

lemma create_citizen_sel [simp]:
  "citizens (create_citizen e cid c w) = (citizens w)(cid \<mapsto> c)"
  "affiliations (create_citizen e cid c w) = affiliations w"
  by (simp_all add: create_citizen_def citizen_post_save_def split: option.splits)

subsection \<open>The completion gate is idempotent\<close>

lemma check_twice:
  "snd (check_and_complete_transfer e2 cid (snd (check_and_complete_transfer e1 cid w)))
     = snd (check_and_complete_transfer e1 cid w)"
  by (auto simp: check_and_complete_transfer_def Let_def split: option.splits)

lemma check_fold:
  "fold (\<lambda>e' w'. snd (check_and_complete_transfer e' cid w')) es
        (snd (check_and_complete_transfer e cid w))
     = snd (check_and_complete_transfer e cid w)"
  by (induction es) (simp_all add: check_twice)

lemma check_not_transferring:
  "citizens w cid = Some c \<Longrightarrow> affiliations w cid = Some a \<Longrightarrow> status a \<noteq> TRANSFERRING \<Longrightarrow>
   check_and_complete_transfer e cid w = (fail (NotBeingTransferred cid), w)"
  by (simp add: check_and_complete_transfer_def)

lemma check_after_success:
  "success (fst (check_and_complete_transfer e cid w)) \<Longrightarrow>
   check_and_complete_transfer e' cid (snd (check_and_complete_transfer e cid w))
     = (fail (NotBeingTransferred cid), snd (check_and_complete_transfer e cid w))"
  by (auto simp: check_and_complete_transfer_def Let_def fail_def ok_def
           split: option.splits if_splits)

lemma ready_completes:
  "check_and_complete_transfer sample_env ''111'' ready_world =
     (ok (TransferCompleted ''111''),
      \<lparr>citizens = [''111'' \<mapsto> sample_citizen],
       affiliations = [''111'' \<mapsto>
         sample_affiliation\<lparr>status := AFFILIATED, transfer_completed_at := Some 7,
                             documents_ready := True\<rparr>],
       trace = [CitizenSaved ''111'' sample_citizen,
                AffiliationSaved ''111''
                  (sample_affiliation\<lparr>status := AFFILIATED, transfer_completed_at := Some 7,
                             documents_ready := True\<rparr>),
                Published (AffiliationCreated 111) True]\<rparr>)"
  by (simp add: check_and_complete_transfer_def Let_def ready_world_def sample_env_def
        sample_citizen_def sample_affiliation_def py_int_111 save_citizen_def
        save_affiliation_def publish_def)

text \<open>
  Claim C2. \<^verbatim>\<open>check_and_complete_transfer\<close> is idempotent. For a citizen whose affiliation
  is not TRANSFERRING it changes nothing (no write, no event, no POST) and answers that the
  citizen is not being transferred. Calling it any number \<open>N \<ge> 1\<close> of times in a row (each
  call under its own environment: broker, peers and clock may differ from call to call)
  leaves the same tables and the same trace as the first call alone. After a call
  that completed the transfer, a further call is the not-being-transferred no-op.
\<close>

theorem check_and_complete_transfer_idempotent:
  "(\<forall>c a. citizens w cid = Some c \<and> affiliations w cid = Some a \<and> status a \<noteq> TRANSFERRING \<longrightarrow>
       check_and_complete_transfer e cid w = (fail (NotBeingTransferred cid), w))
   \<and> fold (\<lambda>e' w'. snd (check_and_complete_transfer e' cid w')) (e # es) w
       = snd (check_and_complete_transfer e cid w)
   \<and> (success (fst (check_and_complete_transfer e cid w)) \<longrightarrow>
       check_and_complete_transfer e' cid (snd (check_and_complete_transfer e cid w))
         = (fail (NotBeingTransferred cid), snd (check_and_complete_transfer e cid w)))"
  using check_not_transferring check_fold check_after_success by simp

text \<open>
  Witness for C2: citizen 111 AFFILIATED (the no-op), and citizen 111 TRANSFERRING with both
  conditions met (three calls in a row, and a call after completion).
\<close>

theorem check_and_complete_transfer_idempotent_witness:
  "check_and_complete_transfer sample_env ''111'' affiliated_world
      = (fail (NotBeingTransferred ''111''), affiliated_world)
   \<and> success (fst (check_and_complete_transfer sample_env ''111'' ready_world))
   \<and> fold (\<lambda>e' w'. snd (check_and_complete_transfer e' ''111'' w'))
        [sample_env, broker_down_env, sample_env] ready_world
       = snd (check_and_complete_transfer sample_env ''111'' ready_world)
   \<and> check_and_complete_transfer broker_down_env ''111''
        (snd (check_and_complete_transfer sample_env ''111'' ready_world))
       = (fail (NotBeingTransferred ''111''),
          snd (check_and_complete_transfer sample_env ''111'' ready_world))"
proof -
  have a: "citizens affiliated_world ''111'' = Some sample_citizen
      \<and> affiliations affiliated_world ''111'' = Some sample_affiliation
      \<and> status sample_affiliation \<noteq> TRANSFERRING"
    by (simp add: affiliated_world_def sample_affiliation_def)
  have s: "success (fst (check_and_complete_transfer sample_env ''111'' ready_world))"
    by (simp add: ready_completes ok_def)
  from a s
    check_and_complete_transfer_idempotent
      [of affiliated_world "''111''" sample_env "[]" sample_env]
    check_and_complete_transfer_idempotent
      [of ready_world "''111''" sample_env "[broker_down_env, sample_env]" broker_down_env]
  show ?thesis by blast
qed

subsection \<open>The verification flag agrees with the verification status\<close>

lemma vc_lookup:
  "verified_consistent w \<Longrightarrow> citizens w cid = Some c \<Longrightarrow>
   (is_verified c \<longleftrightarrow> verification_status c = VERIFICATION_VERIFIED)"
  by (simp add: verified_consistent_def)

lemma vc_citizens_eq:
  "verified_consistent w \<Longrightarrow> citizens w' = citizens w \<Longrightarrow> verified_consistent w'"
  by (simp add: verified_consistent_def)

lemma vc_save_citizen:
  "verified_consistent w \<Longrightarrow> (is_verified c \<longleftrightarrow> verification_status c = VERIFICATION_VERIFIED) \<Longrightarrow>
   verified_consistent (save_citizen cid c w)"
  by (simp add: verified_consistent_def)

lemma vc_save_affiliation:
  "verified_consistent w \<Longrightarrow> verified_consistent (save_affiliation cid a w)"
  by (simp add: verified_consistent_def)

lemma vc_trace:
  "verified_consistent w \<Longrightarrow> verified_consistent (w\<lparr>trace := t\<rparr>)"
  by (simp add: verified_consistent_def)

lemma vc_publish:
  "verified_consistent w \<Longrightarrow> verified_consistent (snd (publish e ev w))"
  by (simp add: verified_consistent_def)

lemma vc_delete_affiliation_row:
  "verified_consistent w \<Longrightarrow> verified_consistent (delete_affiliation_row cid w)"
  by (simp add: verified_consistent_def)

lemma vc_delete_citizen_row:
  "verified_consistent w \<Longrightarrow> verified_consistent (delete_citizen_row cid w)"
  by (simp add: verified_consistent_def)

lemma vc_create_citizen:
  "verified_consistent w \<Longrightarrow> (is_verified c \<longleftrightarrow> verification_status c = VERIFICATION_VERIFIED) \<Longrightarrow>
   verified_consistent (create_citizen e cid c w)"
  by (simp add: verified_consistent_def)

lemma vc_send_confirmation:
  "verified_consistent w \<Longrightarrow> verified_consistent (send_confirmation e u cid st w)"
  by (simp add: verified_consistent_def)

lemmas vc_intros = vc_save_affiliation vc_trace vc_publish vc_delete_affiliation_row
  vc_delete_citizen_row vc_send_confirmation

lemma vc_check:
  assumes "verified_consistent w"
  shows "verified_consistent (snd (check_and_complete_transfer e cid w))"
proof (cases "citizens w cid")
  case None
  with assms show ?thesis by (simp add: check_and_complete_transfer_def)
next
  case (Some c)
  with assms have "is_verified c \<longleftrightarrow> verification_status c = VERIFICATION_VERIFIED"
    by (rule vc_lookup)
  then have "verified_consistent (save_citizen cid (c\<lparr>is_registered := True\<rparr>) w)"
    using assms by (intro vc_save_citizen) simp_all
  with assms Some show ?thesis
    by (auto simp: check_and_complete_transfer_def Let_def split: option.splits
             intro!: vc_intros)
qed

lemma vc_register:
  "verified_consistent w \<Longrightarrow> verified_consistent (snd (register_citizen e cd w))"
  by (auto simp: register_citizen_def Let_def split: option.splits
           intro!: vc_intros vc_create_citizen)

lemma vc_receive:
  "verified_consistent w \<Longrightarrow> verified_consistent (snd (receive_transfer e td w))"
  by (auto simp: receive_transfer_def Let_def split: option.splits
           intro!: vc_intros vc_create_citizen)

lemma vc_handle_register:
  "verified_consistent w \<Longrightarrow> verified_consistent (handle_register_citizen_completed e m w)"
  by (auto simp: handle_register_citizen_completed_def Let_def split: option.splits
           intro!: vc_intros vc_check vc_save_citizen)

lemma vc_complete:
  "verified_consistent w \<Longrightarrow> verified_consistent (snd (complete_transfer_after_documents e cid w))"
  by (auto simp: complete_transfer_after_documents_def Let_def split: option.splits
           intro!: vc_intros vc_check)

lemma vc_continue:
  "verified_consistent w \<Longrightarrow> verified_consistent (snd (continue_transfer_after_unregister e cid w))"
  by (auto simp: continue_transfer_after_unregister_def post_transfer_def Let_def
           split: option.splits intro!: vc_intros)

lemma vc_handle_unregister:
  "verified_consistent w \<Longrightarrow> verified_consistent (handle_unregister_citizen_completed e m w)"
proof (cases "citizens w (uc_id m)")
  case None
  assume "verified_consistent w"
  with None show ?thesis by (simp add: handle_unregister_citizen_completed_def Let_def)
next
  case (Some c)
  assume vc: "verified_consistent w"
  with Some have "is_verified c \<longleftrightarrow> verification_status c = VERIFICATION_VERIFIED"
    by (intro vc_lookup)
  then have "verified_consistent (save_citizen (uc_id m)
        (c\<lparr>pending_deletion := False, verification_message := x\<rparr>) w)" for x
    using vc by (intro vc_save_citizen) simp_all
  with vc Some show ?thesis
    by (auto simp: handle_unregister_citizen_completed_def Let_def split: option.splits
             intro!: vc_intros vc_continue)
qed

lemma vc_send:
  "verified_consistent w \<Longrightarrow> verified_consistent (snd (send_transfer e cid tgt w))"
  by (auto simp: send_transfer_def Let_def publish_def split: option.splits
           intro!: vc_intros)

lemma vc_confirm:
  "verified_consistent w \<Longrightarrow> verified_consistent (snd (handle_transfer_confirmation e cid rs w))"
  by (auto simp: handle_transfer_confirmation_def Let_def split: option.splits
           intro!: vc_intros)

lemma vc_delete_affiliation:
  assumes vc: "verified_consistent w"
  shows "verified_consistent (snd (delete_affiliation e cid w))"
proof (cases "citizens w cid")
  case None
  with vc show ?thesis by (simp add: delete_affiliation_def)
next
  case (Some c)
  with vc have "is_verified c \<longleftrightarrow> verification_status c = VERIFICATION_VERIFIED"
    by (intro vc_lookup)
  then have "is_verified (c\<lparr>pending_deletion := p, verification_message := x\<rparr>)
      \<longleftrightarrow> verification_status (c\<lparr>pending_deletion := p, verification_message := x\<rparr>)
            = VERIFICATION_VERIFIED" for p x
    by simp
  with vc Some show ?thesis
    by (auto simp: delete_affiliation_def Let_def publish_def split: option.splits
             intro!: vc_intros vc_save_citizen)
qed


text \<open>
  Claim C9. Every operation that writes a Citizen preserves the invariant that a stored
  citizen has \<^verbatim>\<open>is_verified\<close> true exactly when its \<^verbatim>\<open>verification_status\<close> is
  \<^verbatim>\<open>verified\<close>: register_citizen, receive_transfer, the register.citizen.completed handler
  (both the 201 branch and the failure branch, whichever the message selects),
  check_and_complete_transfer and the unregister.citizen.completed handler (rollback and
  deletion), and with them the remaining service operations.
\<close>

theorem verified_iff_status_preserved:
  assumes "verified_consistent w"
  shows "verified_consistent (snd (register_citizen e cd w))
       \<and> verified_consistent (snd (receive_transfer e td w))
       \<and> verified_consistent (handle_register_citizen_completed e rm w)
       \<and> verified_consistent (snd (check_and_complete_transfer e cid w))
       \<and> verified_consistent (handle_unregister_citizen_completed e um w)
       \<and> verified_consistent (snd (complete_transfer_after_documents e cid w))
       \<and> verified_consistent (snd (send_transfer e cid tgt w))
       \<and> verified_consistent (snd (continue_transfer_after_unregister e cid w))
       \<and> verified_consistent (snd (handle_transfer_confirmation e cid req_status w))
       \<and> verified_consistent (snd (delete_affiliation e cid w))"
  using assms
  by (simp add: vc_register vc_receive vc_handle_register vc_check vc_handle_unregister
        vc_complete vc_send vc_continue vc_confirm vc_delete_affiliation)

lemma vc_failed: "verified_consistent failed_world"
  by (simp add: verified_consistent_def failed_world_def sample_citizen_def)

text \<open>
  Witness for C9: the world in which citizen 111 failed verification satisfies the
  invariant, and so does every world the operations make of it.
\<close>

theorem verified_iff_status_preserved_witness:
  "verified_consistent failed_world
   \<and> verified_consistent (snd (register_citizen sample_env sample_registration failed_world))
   \<and> verified_consistent (snd (receive_transfer sample_env sample_transfer failed_world))
   \<and> verified_consistent
       (handle_register_citizen_completed sample_env (registered_201 ''111'') failed_world)
   \<and> verified_consistent (snd (check_and_complete_transfer sample_env ''111'' failed_world))
   \<and> verified_consistent
       (handle_unregister_citizen_completed sample_env unregister_failed failed_world)"
  using vc_failed
    verified_iff_status_preserved
      [OF vc_failed, of sample_env sample_registration sample_transfer
         "registered_201 ''111''" "''111''" unregister_failed]
  by simp

subsection \<open>An incoming transfer completes the same way in either event order\<close>

lemma check_tables:
  "citizens (snd (check_and_complete_transfer e cid w)) =
     (case citizens w cid of
        None \<Rightarrow> citizens w
      | Some c \<Rightarrow>
          (case affiliations w cid of
             None \<Rightarrow> citizens w
           | Some a \<Rightarrow>
               if status a = TRANSFERRING \<and> documents_ready a \<and> is_verified c
               then (citizens w)(cid \<mapsto> c\<lparr>is_registered := True\<rparr>)
               else citizens w))"
  "affiliations (snd (check_and_complete_transfer e cid w)) =
     (case citizens w cid of
        None \<Rightarrow> affiliations w
      | Some c \<Rightarrow>
          (case affiliations w cid of
             None \<Rightarrow> affiliations w
           | Some a \<Rightarrow>
               if status a = TRANSFERRING \<and> documents_ready a \<and> is_verified c
               then (affiliations w)(cid \<mapsto>
                      a\<lparr>status := AFFILIATED, transfer_completed_at := Some (clock e)\<rparr>)
               else affiliations w))"
  by (auto simp: check_and_complete_transfer_def Let_def split: option.splits)

lemma complete_tables:
  assumes "citizens w cid = Some c" "affiliations w cid = Some a" "py_int cid = Some n"
  shows "citizens (snd (complete_transfer_after_documents e cid w)) =
           (if status a = TRANSFERRING \<and> is_verified c
            then (citizens w)(cid \<mapsto> c\<lparr>is_registered := True\<rparr>) else citizens w)"
    and "affiliations (snd (complete_transfer_after_documents e cid w)) =
           (affiliations w)(cid \<mapsto>
              (if status a = TRANSFERRING \<and> is_verified c
               then a\<lparr>documents_ready := True, status := AFFILIATED,
                      transfer_completed_at := Some (clock e)\<rparr>
               else a\<lparr>documents_ready := True\<rparr>))"
  using assms
  by (simp_all add: complete_transfer_after_documents_def Let_def check_tables)

lemma register_201_tables:
  assumes "citizens w cid = Some c" "affiliations w cid = Some a" "cid \<noteq> []"
  shows "citizens (handle_register_citizen_completed e (registered_201 cid) w) =
           (citizens w)(cid \<mapsto>
              (if status a = TRANSFERRING \<and> documents_ready a
               then c\<lparr>is_verified := True, verification_status := VERIFICATION_VERIFIED,
                      verification_message := Some RegisteredInMintic, is_registered := True\<rparr>
               else c\<lparr>is_verified := True, verification_status := VERIFICATION_VERIFIED,
                      verification_message := Some RegisteredInMintic\<rparr>))"
    and "affiliations (handle_register_citizen_completed e (registered_201 cid) w) =
           (affiliations w)(cid \<mapsto>
              (if status a = TRANSFERRING
               then (if documents_ready a
                     then a\<lparr>status := AFFILIATED, transfer_completed_at := Some (clock e)\<rparr>
                     else a)
               else a\<lparr>status := AFFILIATED\<rparr>))"
  using assms
  by (auto simp: handle_register_citizen_completed_def registered_201_def Let_def check_tables)

lemma map_upd_cong: "x = y \<Longrightarrow> m(k \<mapsto> x) = m(k \<mapsto> y)"
  by simp

lemma documents_then_register_tables:
  assumes "citizens w cid = Some c" and "affiliations w cid = Some a"
    and "status a = TRANSFERRING" and "py_int cid = Some n"
  shows "citizens (documents_then_register e1 e2 cid w) =
           (citizens w)(cid \<mapsto>
              c\<lparr>is_verified := True, verification_status := VERIFICATION_VERIFIED,
                verification_message := Some RegisteredInMintic, is_registered := True\<rparr>)"
    and "affiliations (documents_then_register e1 e2 cid w) =
           (affiliations w)(cid \<mapsto>
              a\<lparr>documents_ready := True, status := AFFILIATED,
                transfer_completed_at := Some (if is_verified c then clock e1 else clock e2)\<rparr>)"
proof -
  from assms(4) have ne: "cid \<noteq> []" by (rule py_int_nonempty)
  let ?d = "snd (complete_transfer_after_documents e1 cid w)"
  note d = complete_tables [OF assms(1,2,4), of e1]
  show "citizens (documents_then_register e1 e2 cid w) =
           (citizens w)(cid \<mapsto>
              c\<lparr>is_verified := True, verification_status := VERIFICATION_VERIFIED,
                verification_message := Some RegisteredInMintic, is_registered := True\<rparr>)"
  proof (cases "is_verified c")
    case True
    have dc: "citizens ?d cid = Some (c\<lparr>is_registered := True\<rparr>)"
      using assms(3) True by (simp add: d)
    have da: "affiliations ?d cid = Some (a\<lparr>documents_ready := True, status := AFFILIATED,
                      transfer_completed_at := Some (clock e1)\<rparr>)"
      using assms(3) True by (simp add: d)
    show ?thesis
      unfolding documents_then_register_def
      using assms(3) True
      by (auto simp: register_201_tables(1) [OF dc da ne] d(1) intro!: map_upd_cong citizen.equality affiliation.equality)
  next
    case False
    have dc: "citizens ?d cid = Some c"
      using assms(1) False by (simp add: d)
    have da: "affiliations ?d cid = Some (a\<lparr>documents_ready := True\<rparr>)"
      using False by (simp add: d)
    show ?thesis
      unfolding documents_then_register_def
      using assms(3) False
      by (auto simp: register_201_tables(1) [OF dc da ne] d(1) intro!: map_upd_cong citizen.equality affiliation.equality)
  qed
  show "affiliations (documents_then_register e1 e2 cid w) =
           (affiliations w)(cid \<mapsto>
              a\<lparr>documents_ready := True, status := AFFILIATED,
                transfer_completed_at := Some (if is_verified c then clock e1 else clock e2)\<rparr>)"
  proof (cases "is_verified c")
    case True
    have dc: "citizens ?d cid = Some (c\<lparr>is_registered := True\<rparr>)"
      using assms(3) True by (simp add: d)
    have da: "affiliations ?d cid = Some (a\<lparr>documents_ready := True, status := AFFILIATED,
                      transfer_completed_at := Some (clock e1)\<rparr>)"
      using assms(3) True by (simp add: d)
    show ?thesis
      unfolding documents_then_register_def
      using assms(3) True
      by (auto simp: register_201_tables(2) [OF dc da ne] d(2) intro!: map_upd_cong citizen.equality affiliation.equality)
  next
    case False
    have dc: "citizens ?d cid = Some c"
      using assms(1) False by (simp add: d)
    have da: "affiliations ?d cid = Some (a\<lparr>documents_ready := True\<rparr>)"
      using False by (simp add: d)
    show ?thesis
      unfolding documents_then_register_def
      using assms(3) False
      by (auto simp: register_201_tables(2) [OF dc da ne] d(2) intro!: map_upd_cong citizen.equality affiliation.equality)
  qed
qed

lemma register_then_documents_tables:
  assumes "citizens w cid = Some c" and "affiliations w cid = Some a"
    and "status a = TRANSFERRING" and "py_int cid = Some n"
  shows "citizens (register_then_documents e1 e2 cid w) =
           (citizens w)(cid \<mapsto>
              c\<lparr>is_verified := True, verification_status := VERIFICATION_VERIFIED,
                verification_message := Some RegisteredInMintic, is_registered := True\<rparr>)"
    and "affiliations (register_then_documents e1 e2 cid w) =
           (affiliations w)(cid \<mapsto>
              a\<lparr>documents_ready := True, status := AFFILIATED,
                transfer_completed_at := Some (if documents_ready a then clock e1 else clock e2)\<rparr>)"
proof -
  from assms(4) have ne: "cid \<noteq> []" by (rule py_int_nonempty)
  let ?r = "handle_register_citizen_completed e1 (registered_201 cid) w"
  note r = register_201_tables [OF assms(1,2) ne, of e1]
  show "citizens (register_then_documents e1 e2 cid w) =
           (citizens w)(cid \<mapsto>
              c\<lparr>is_verified := True, verification_status := VERIFICATION_VERIFIED,
                verification_message := Some RegisteredInMintic, is_registered := True\<rparr>)"
  proof (cases "documents_ready a")
    case True
    have rc: "citizens ?r cid = Some (c\<lparr>is_verified := True,
                 verification_status := VERIFICATION_VERIFIED,
                 verification_message := Some RegisteredInMintic, is_registered := True\<rparr>)"
      using assms(3) True by (simp add: r)
    have ra: "affiliations ?r cid
                = Some (a\<lparr>status := AFFILIATED, transfer_completed_at := Some (clock e1)\<rparr>)"
      using assms(3) True by (simp add: r)
    show ?thesis
      unfolding register_then_documents_def
      using assms(3) True
      by (auto simp: complete_tables(1) [OF rc ra assms(4)] r(1) intro!: map_upd_cong citizen.equality affiliation.equality)
  next
    case False
    have rc: "citizens ?r cid = Some (c\<lparr>is_verified := True,
                 verification_status := VERIFICATION_VERIFIED,
                 verification_message := Some RegisteredInMintic\<rparr>)"
      using assms(3) False by (simp add: r)
    have ra: "affiliations ?r cid = Some a"
      using assms(3) False by (simp add: r)
    show ?thesis
      unfolding register_then_documents_def
      using assms(3) False
      by (auto simp: complete_tables(1) [OF rc ra assms(4)] r(1) intro!: map_upd_cong citizen.equality affiliation.equality)
  qed
  show "affiliations (register_then_documents e1 e2 cid w) =
           (affiliations w)(cid \<mapsto>
              a\<lparr>documents_ready := True, status := AFFILIATED,
                transfer_completed_at := Some (if documents_ready a then clock e1 else clock e2)\<rparr>)"
  proof (cases "documents_ready a")
    case True
    have rc: "citizens ?r cid = Some (c\<lparr>is_verified := True,
                 verification_status := VERIFICATION_VERIFIED,
                 verification_message := Some RegisteredInMintic, is_registered := True\<rparr>)"
      using assms(3) True by (simp add: r)
    have ra: "affiliations ?r cid
                = Some (a\<lparr>status := AFFILIATED, transfer_completed_at := Some (clock e1)\<rparr>)"
      using assms(3) True by (simp add: r)
    show ?thesis
      unfolding register_then_documents_def
      using assms(3) True
      by (auto simp: complete_tables(2) [OF rc ra assms(4)] r(2) intro!: map_upd_cong citizen.equality affiliation.equality)
  next
    case False
    have rc: "citizens ?r cid = Some (c\<lparr>is_verified := True,
                 verification_status := VERIFICATION_VERIFIED,
                 verification_message := Some RegisteredInMintic\<rparr>)"
      using assms(3) False by (simp add: r)
    have ra: "affiliations ?r cid = Some a"
      using assms(3) False by (simp add: r)
    show ?thesis
      unfolding register_then_documents_def
      using assms(3) False
      by (auto simp: complete_tables(2) [OF rc ra assms(4)] r(2) intro!: map_upd_cong citizen.equality affiliation.equality)
  qed
qed


text \<open>
  Claim C1. For an incoming transfer in TRANSFERRING status (the citizen and its
  affiliation are stored, the status is TRANSFERRING, and the id is one \<^verbatim>\<open>int()\<close> accepts,
  as it is for every record \<^verbatim>\<open>receive_transfer\<close> leaves behind), handling documents.ready
  and then register.citizen.completed with status code 201 gives the same final citizen
  and affiliation as handling the two events in the reverse order: the citizen is verified
  and registered, the affiliation is AFFILIATED with documents ready. All tables agree; the
  one field that can differ is \<^verbatim>\<open>transfer_completed_at\<close>, which records the clock of the
  event that completed the transfer, and it agrees too when neither condition held before
  the two events (the state \<^verbatim>\<open>receive_transfer\<close> creates): it is the clock of the second
  event in both orders.
\<close>

theorem incoming_transfer_order_independent:
  assumes "citizens w cid = Some c" and "affiliations w cid = Some a"
    and "status a = TRANSFERRING" and "py_int cid = Some n"
  shows "citizens (documents_then_register e1 e2 cid w)
           = citizens (register_then_documents e1 e2 cid w)
       \<and> citizens (documents_then_register e1 e2 cid w) cid
           = Some (c\<lparr>is_verified := True, verification_status := VERIFICATION_VERIFIED,
                     verification_message := Some RegisteredInMintic, is_registered := True\<rparr>)
       \<and> (\<forall>k. without_completed_at (affiliations (documents_then_register e1 e2 cid w) k)
              = without_completed_at (affiliations (register_then_documents e1 e2 cid w) k))
       \<and> without_completed_at (affiliations (documents_then_register e1 e2 cid w) cid)
           = Some (a\<lparr>documents_ready := True, status := AFFILIATED,
                     transfer_completed_at := None\<rparr>)
       \<and> (\<not> is_verified c \<and> \<not> documents_ready a \<longrightarrow>
            affiliations (documents_then_register e1 e2 cid w)
              = affiliations (register_then_documents e1 e2 cid w)
            \<and> affiliations (documents_then_register e1 e2 cid w) cid
                = Some (a\<lparr>documents_ready := True, status := AFFILIATED,
                          transfer_completed_at := Some (clock e2)\<rparr>))"
  by (simp add: documents_then_register_tables [OF assms]
        register_then_documents_tables [OF assms] without_completed_at_def)


lemma receive_sample:
  "receive_transfer sample_env sample_transfer empty_world =
     (ok (TransferRequestReceived ''999''),
      \<lparr>citizens = [''999'' \<mapsto>
          \<lparr>name = ''Luis'', address = [], email = ''luis@example.com'',
           operator_id = ''op-1'', operator_name = ''Operator One'',
           is_registered = False, is_verified = False,
           verification_status = VERIFICATION_PENDING, pending_deletion = False,
           verification_message = Some WaitingForDocumentsAndMintic\<rparr>],
       affiliations = [''999'' \<mapsto>
          sample_affiliation\<lparr>status := TRANSFERRING,
            transfer_confirmation_url := Some ''http://source/confirm'',
            transfer_started_at := Some 7\<rparr>],
       trace =
         [CitizenSaved ''999''
            \<lparr>name = ''Luis'', address = [], email = ''luis@example.com'',
             operator_id = ''op-1'', operator_name = ''Operator One'',
             is_registered = False, is_verified = False,
             verification_status = VERIFICATION_PENDING, pending_deletion = False,
             verification_message = Some WaitingForDocumentsAndMintic\<rparr>,
          AffiliationSaved ''999''
            (sample_affiliation\<lparr>status := TRANSFERRING,
               transfer_confirmation_url := Some ''http://source/confirm'',
               transfer_started_at := Some 7\<rparr>),
          Published (DocumentsDownloadRequested 999 [(''URL1'', [''http://source/doc1''])])
            True]\<rparr>)"
  by (simp add: receive_transfer_def Let_def sample_env_def sample_transfer_def empty_world_def
        py_int_999 create_citizen_def citizen_post_save_def save_citizen_def
        save_affiliation_def publish_def sample_affiliation_def)

text \<open>
  Witness for C1: the transfer of citizen 999 as \<^verbatim>\<open>receive_transfer\<close> stores it, the
  second event handled while the broker is down.
\<close>

theorem incoming_transfer_order_independent_witness:
  "success (fst (receive_transfer sample_env sample_transfer empty_world))
   \<and> citizens (documents_then_register sample_env broker_down_env ''999''
         (snd (receive_transfer sample_env sample_transfer empty_world)))
       = citizens (register_then_documents sample_env broker_down_env ''999''
           (snd (receive_transfer sample_env sample_transfer empty_world)))
   \<and> affiliations (documents_then_register sample_env broker_down_env ''999''
         (snd (receive_transfer sample_env sample_transfer empty_world)))
       = affiliations (register_then_documents sample_env broker_down_env ''999''
           (snd (receive_transfer sample_env sample_transfer empty_world)))
   \<and> affiliations (documents_then_register sample_env broker_down_env ''999''
         (snd (receive_transfer sample_env sample_transfer empty_world))) ''999''
       = Some (sample_affiliation\<lparr>status := AFFILIATED,
            transfer_confirmation_url := Some ''http://source/confirm'',
            transfer_started_at := Some 7, transfer_completed_at := Some 7,
            documents_ready := True\<rparr>)"
proof -
  let ?w = "snd (receive_transfer sample_env sample_transfer empty_world)"
  let ?c = "\<lparr>name = ''Luis'', address = [], email = ''luis@example.com'',
           operator_id = ''op-1'', operator_name = ''Operator One'',
           is_registered = False, is_verified = False,
           verification_status = VERIFICATION_PENDING, pending_deletion = False,
           verification_message = Some WaitingForDocumentsAndMintic\<rparr>"
  let ?a = "sample_affiliation\<lparr>status := TRANSFERRING,
            transfer_confirmation_url := Some ''http://source/confirm'',
            transfer_started_at := Some 7\<rparr>"
  have c: "citizens ?w ''999'' = Some ?c" by (simp add: receive_sample)
  have a: "affiliations ?w ''999'' = Some ?a" by (simp add: receive_sample)
  have s: "status ?a = TRANSFERRING" by simp
  have k: "clock broker_down_env = 7" by (simp add: broker_down_env_def sample_env_def)
  have r: "success (fst (receive_transfer sample_env sample_transfer empty_world))"
    by (simp add: receive_sample ok_def)
  note t = incoming_transfer_order_independent [OF c a s py_int_999, of sample_env broker_down_env]
  have f: "\<not> is_verified ?c \<and> \<not> documents_ready ?a" by (simp add: sample_affiliation_def)
  show ?thesis
  proof (intro conjI)
    show "success (fst (receive_transfer sample_env sample_transfer empty_world))"
      by (rule r)
    show "citizens (documents_then_register sample_env broker_down_env ''999'' ?w)
            = citizens (register_then_documents sample_env broker_down_env ''999'' ?w)"
      using t by blast
    show "affiliations (documents_then_register sample_env broker_down_env ''999'' ?w)
            = affiliations (register_then_documents sample_env broker_down_env ''999'' ?w)"
      using t f by blast
    have "affiliations (documents_then_register sample_env broker_down_env ''999'' ?w) ''999''
            = Some (?a\<lparr>documents_ready := True, status := AFFILIATED,
                          transfer_completed_at := Some (clock broker_down_env)\<rparr>)"
      using t f by blast
    then show "affiliations (documents_then_register sample_env broker_down_env ''999'' ?w) ''999''
       = Some (sample_affiliation\<lparr>status := AFFILIATED,
            transfer_confirmation_url := Some ''http://source/confirm'',
            transfer_started_at := Some 7, transfer_completed_at := Some 7,
            documents_ready := True\<rparr>)"
      by (simp add: k sample_affiliation_def)
  qed
qed

subsection \<open>Receiving a transfer, then documents, then registration\<close>

lemma receive_world:
  assumes "citizens w (td_id td) = None" and "py_int (td_id td) = Some n"
    and "citizenName td = Some nm" and "citizenEmail td = Some em"
    and "\<not> insert_fault e CitizenTable (td_id td)"
    and "\<not> insert_fault e AffiliationTable (td_id td)"
  shows "receive_transfer e td w =
     (ok (TransferRequestReceived (td_id td)),
      w\<lparr>citizens := (citizens w)(td_id td \<mapsto> received_citizen e nm em),
        affiliations := (affiliations w)(td_id td \<mapsto> received_affiliation e td),
        trace := trace w @
          [CitizenSaved (td_id td) (received_citizen e nm em),
           AffiliationSaved (td_id td) (received_affiliation e td),
           Published (DocumentsDownloadRequested n
                        (case urlDocuments td of None \<Rightarrow> [] | Some u \<Rightarrow> u))
             (broker e (DocumentsDownloadRequested n
                        (case urlDocuments td of None \<Rightarrow> [] | Some u \<Rightarrow> u)))]\<rparr>)"
  using assms
  by (simp add: receive_transfer_def Let_def received_citizen_def received_affiliation_def
        create_citizen_def citizen_post_save_def save_citizen_def save_affiliation_def
        publish_def)

text \<open>
  When \<^verbatim>\<open>receive_transfer\<close> accepts a payload for an id that is not stored: exactly when
  \<^verbatim>\<open>int()\<close> accepts the id, name and e-mail are present and both inserts go through.
  Otherwise it fails and leaves no row behind.
\<close>

lemma receive_transfer_success_iff:
  assumes "citizens w (td_id td) = None"
  shows "success (fst (receive_transfer e td w)) \<longleftrightarrow>
           py_int (td_id td) \<noteq> None \<and> citizenName td \<noteq> None \<and> citizenEmail td \<noteq> None
           \<and> \<not> insert_fault e CitizenTable (td_id td)
           \<and> \<not> insert_fault e AffiliationTable (td_id td)"
  using assms
  by (auto simp: receive_transfer_def Let_def ok_def fail_def split: option.splits)

lemma receive_transfer_failure_leaves_nothing:
  assumes "citizens w (td_id td) = None"
    and "\<not> success (fst (receive_transfer e td w))"
  shows "citizens (snd (receive_transfer e td w)) = citizens w"
  using assms
  by (auto simp: receive_transfer_def Let_def ok_def fail_def fun_upd_idem
           split: option.splits if_splits)

lemma round_trip_world:
  assumes "citizens w (td_id td) = None" and "py_int (td_id td) = Some n"
    and "citizenName td = Some nm" and "citizenEmail td = Some em"
    and "\<not> insert_fault e0 CitizenTable (td_id td)"
    and "\<not> insert_fault e0 AffiliationTable (td_id td)"
  shows "round_trip e0 e1 e2 td w =
      w\<lparr>citizens := (citizens w)(td_id td \<mapsto>
           (received_citizen e0 nm em)\<lparr>is_verified := True,
              verification_status := VERIFICATION_VERIFIED,
              verification_message := Some RegisteredInMintic, is_registered := True\<rparr>),
        affiliations := (affiliations w)(td_id td \<mapsto>
           (received_affiliation e0 td)\<lparr>documents_ready := True, status := AFFILIATED,
              transfer_completed_at := Some (clock e2)\<rparr>),
        trace := trace w @
          [CitizenSaved (td_id td) (received_citizen e0 nm em),
           AffiliationSaved (td_id td) (received_affiliation e0 td),
           Published (DocumentsDownloadRequested n
                        (case urlDocuments td of None \<Rightarrow> [] | Some u \<Rightarrow> u))
             (broker e0 (DocumentsDownloadRequested n
                        (case urlDocuments td of None \<Rightarrow> [] | Some u \<Rightarrow> u))),
           AffiliationSaved (td_id td) ((received_affiliation e0 td)\<lparr>documents_ready := True\<rparr>),
           Published (RegisterCitizenRequested n nm [] em (OPERATOR_ID e1) (OPERATOR_NAME e1))
             (broker e1 (RegisterCitizenRequested n nm [] em (OPERATOR_ID e1) (OPERATOR_NAME e1))),
           CitizenSaved (td_id td)
             ((received_citizen e0 nm em)\<lparr>is_verified := True,
                verification_status := VERIFICATION_VERIFIED,
                verification_message := Some RegisteredInMintic\<rparr>),
           CitizenSaved (td_id td)
             ((received_citizen e0 nm em)\<lparr>is_verified := True,
                verification_status := VERIFICATION_VERIFIED,
                verification_message := Some RegisteredInMintic, is_registered := True\<rparr>),
           AffiliationSaved (td_id td)
             ((received_affiliation e0 td)\<lparr>documents_ready := True, status := AFFILIATED,
                transfer_completed_at := Some (clock e2)\<rparr>)]
          @ confirmation_post e2 (confirmAPI td) n
          @ [Published (AffiliationCreated n) (broker e2 (AffiliationCreated n))]\<rparr>"
proof -
  from assms(2) have ne: "td_id td \<noteq> []" by (rule py_int_nonempty)
  show ?thesis
    unfolding round_trip_def documents_then_register_def receive_world [OF assms]
    using assms(2) ne
    by (simp add: complete_transfer_after_documents_def check_and_complete_transfer_def
          handle_register_citizen_completed_def registered_201_def Let_def
          received_citizen_def received_affiliation_def confirmation_post_def
          send_confirmation_def save_citizen_def save_affiliation_def publish_def
          split: option.splits)
qed

lemma posts_append [simp]: "posts (xs @ ys) = posts xs @ posts ys"
  by (simp add: posts_def)

lemma posts_confirmation_post [simp]: "posts (confirmation_post e url n) = confirmation_post e url n"
  by (simp add: posts_def confirmation_post_def split: option.splits)

text \<open>
  Claim C3, amended. For a citizen id that is not stored locally and a payload that
  \<^verbatim>\<open>receive_transfer\<close> accepts (\<^verbatim>\<open>int()\<close> accepts the id, name and e-mail are present,
  both inserts go through), receive_transfer, then documents.ready, then
  register.citizen.completed with 201 leave the affiliation AFFILIATED and the citizen
  registered, with the payload's \<^verbatim>\<open>confirmAPI\<close> stored as the callback URL. When that URL
  is a non-empty string the sequence performs exactly one POST, of \<^verbatim>\<open>{id, req_status: 1}\<close>
  to that URL; when it is null or empty the sequence performs no POST at all.
\<close>

theorem round_trip_confirms_once:
  assumes "citizens w (td_id td) = None" and "py_int (td_id td) = Some n"
    and "citizenName td = Some nm" and "citizenEmail td = Some em"
    and "\<not> insert_fault e0 CitizenTable (td_id td)"
    and "\<not> insert_fault e0 AffiliationTable (td_id td)"
  shows "success (fst (receive_transfer e0 td w))
       \<and> map_option is_registered (citizens (round_trip e0 e1 e2 td w) (td_id td)) = Some True
       \<and> map_option status (affiliations (round_trip e0 e1 e2 td w) (td_id td)) = Some AFFILIATED
       \<and> map_option transfer_confirmation_url (affiliations (round_trip e0 e1 e2 td w) (td_id td))
            = Some (confirmAPI td)
       \<and> (\<forall>u. confirmAPI td = Some u \<and> u \<noteq> [] \<longrightarrow>
             posts (trace (round_trip e0 e1 e2 td w)) =
               posts (trace w) @
               [HttpPost u (ConfirmationBody n 1) (http_post e2 u (ConfirmationBody n 1))])
       \<and> (confirmAPI td = None \<or> confirmAPI td = Some [] \<longrightarrow>
             posts (trace (round_trip e0 e1 e2 td w)) = posts (trace w))"
  by (auto simp: round_trip_world [OF assms] receive_world [OF assms] ok_def posts_def
        confirmation_post_def received_citizen_def received_affiliation_def)

text \<open>Witness for C3: citizen 999 arriving in an empty registry, with a callback URL.\<close>

theorem round_trip_confirms_once_witness:
  "citizens empty_world (td_id sample_transfer) = None
   \<and> success (fst (receive_transfer sample_env sample_transfer empty_world))
   \<and> map_option is_registered
        (citizens (round_trip sample_env sample_env sample_env sample_transfer empty_world) ''999'')
       = Some True
   \<and> map_option status
        (affiliations (round_trip sample_env sample_env sample_env sample_transfer empty_world) ''999'')
       = Some AFFILIATED
   \<and> posts (trace (round_trip sample_env sample_env sample_env sample_transfer empty_world))
       = [HttpPost ''http://source/confirm'' (ConfirmationBody 999 1) (Some 200)]"
proof -
  have a: "citizens empty_world (td_id sample_transfer) = None"
    by (simp add: empty_world_def)
  have b: "py_int (td_id sample_transfer) = Some 999"
    by (simp add: sample_transfer_def py_int_999)
  have nm: "citizenName sample_transfer = Some ''Luis''"
    and em: "citizenEmail sample_transfer = Some ''luis@example.com''"
    by (simp_all add: sample_transfer_def)
  have i1: "\<not> insert_fault sample_env CitizenTable (td_id sample_transfer)"
    and i2: "\<not> insert_fault sample_env AffiliationTable (td_id sample_transfer)"
    by (simp_all add: sample_env_def)
  have c: "confirmAPI sample_transfer = Some ''http://source/confirm''"
    by (simp add: sample_transfer_def)
  have d: "posts (trace empty_world) = []"
    by (simp add: empty_world_def posts_def)
  have e: "http_post sample_env ''http://source/confirm'' (ConfirmationBody 999 1) = Some 200"
    by (simp add: sample_env_def)
  have f: "td_id sample_transfer = ''999''"
    by (simp add: sample_transfer_def)
  from round_trip_confirms_once [OF a b nm em i1 i2, of sample_env sample_env] a c d e f
  show ?thesis by simp
qed

text \<open>
  Counterexample to C3 as stated: the same payload with an empty \<^verbatim>\<open>confirmAPI\<close> is
  accepted, the transfer completes, and no confirmation is posted.
\<close>

theorem round_trip_without_callback_counterexample:
  "citizens empty_world (td_id transfer_without_callback) = None
   \<and> success (fst (receive_transfer sample_env transfer_without_callback empty_world))
   \<and> map_option is_registered
        (citizens (round_trip sample_env sample_env sample_env transfer_without_callback
                     empty_world) ''999'')
       = Some True
   \<and> map_option status
        (affiliations (round_trip sample_env sample_env sample_env transfer_without_callback
                         empty_world) ''999'')
       = Some AFFILIATED
   \<and> map_option transfer_confirmation_url
        (affiliations (round_trip sample_env sample_env sample_env transfer_without_callback
                         empty_world) ''999'')
       = Some (confirmAPI transfer_without_callback)
   \<and> posts (trace (round_trip sample_env sample_env sample_env transfer_without_callback
                      empty_world))
       = []"
proof -
  have a: "citizens empty_world (td_id transfer_without_callback) = None"
    by (simp add: empty_world_def)
  have b: "py_int (td_id transfer_without_callback) = Some 999"
    by (simp add: transfer_without_callback_def sample_transfer_def py_int_999)
  have nm: "citizenName transfer_without_callback = Some ''Luis''"
    and em: "citizenEmail transfer_without_callback = Some ''luis@example.com''"
    by (simp_all add: transfer_without_callback_def sample_transfer_def)
  have i1: "\<not> insert_fault sample_env CitizenTable (td_id transfer_without_callback)"
    and i2: "\<not> insert_fault sample_env AffiliationTable (td_id transfer_without_callback)"
    by (simp_all add: sample_env_def)
  have f: "td_id transfer_without_callback = ''999''"
    by (simp add: transfer_without_callback_def sample_transfer_def)
  have c: "confirmAPI transfer_without_callback = Some []"
    by (simp add: transfer_without_callback_def)
  have t: "trace empty_world = []"
    by (simp add: empty_world_def)
  show ?thesis
    using a f c t
    by (simp add: round_trip_world [OF a b nm em i1 i2] receive_world [OF a b nm em i1 i2]
          ok_def confirmation_post_def posts_def
          received_citizen_def received_affiliation_def)
qed

subsection \<open>Citizens whose id is no integer\<close>

text \<open>
  The serializer of the registration endpoint takes any string as id, and
  \<^verbatim>\<open>register_citizen\<close> converts the id only after both rows are written: for the id
  \<^verbatim>\<open>abc\<close> it returns failure and keeps the citizen and its affiliation.
\<close>

lemma lettered_registration_kept:
  "register_citizen sample_env lettered_registration empty_world =
     (fail (ErrorRegistering ValueError),
      \<lparr>citizens = [''abc'' \<mapsto> registered_citizen lettered_registration],
       affiliations = [''abc'' \<mapsto> pending_affiliation lettered_registration],
       trace = [CitizenSaved ''abc'' (registered_citizen lettered_registration),
                AffiliationSaved ''abc'' (pending_affiliation lettered_registration)]\<rparr>)"
  by (simp add: register_citizen_def already_registered_def validate_citizen_def Let_def
        lettered_registration_def sample_registration_def sample_env_def empty_world_def
        py_int_abc create_citizen_def citizen_post_save_def save_citizen_def
        save_affiliation_def registered_citizen_def pending_affiliation_def)

lemma lettered_pending_world_eq:
  "lettered_pending_world =
     \<lparr>citizens = [''abc'' \<mapsto> registered_citizen lettered_registration],
      affiliations = [''abc'' \<mapsto> pending_affiliation lettered_registration],
      trace = [CitizenSaved ''abc'' (registered_citizen lettered_registration),
               AffiliationSaved ''abc'' (pending_affiliation lettered_registration)]\<rparr>"
  by (simp add: lettered_pending_world_def lettered_registration_kept)

text \<open>
  The later operations write before they convert the id too, so the events of a transfer
  move this citizen on although each call fails: documents.ready sets
  \<^verbatim>\<open>documents_ready\<close>, a 201 verifies the citizen and affiliates it, and
  \<^verbatim>\<open>send_transfer\<close> leaves it TRANSFERRING.
\<close>

lemma lettered_ready_world_eq:
  "lettered_ready_world =
     \<lparr>citizens = [''abc'' \<mapsto>
         (registered_citizen lettered_registration)\<lparr>is_verified := True,
            verification_status := VERIFICATION_VERIFIED,
            verification_message := Some RegisteredInMintic\<rparr>],
      affiliations = [''abc'' \<mapsto>
         (pending_affiliation lettered_registration)\<lparr>status := TRANSFERRING,
            transfer_destination_operator_id := Some ''op-2'',
            transfer_destination_operator_name := Some ''Operator Two'',
            transfer_destination_api_url := Some ''http://op-2/receive'',
            transfer_started_at := Some 7, documents_ready := True\<rparr>],
      trace =
        [CitizenSaved ''abc'' (registered_citizen lettered_registration),
         AffiliationSaved ''abc'' (pending_affiliation lettered_registration),
         AffiliationSaved ''abc''
           ((pending_affiliation lettered_registration)\<lparr>documents_ready := True\<rparr>),
         CitizenSaved ''abc''
           ((registered_citizen lettered_registration)\<lparr>is_verified := True,
              verification_status := VERIFICATION_VERIFIED,
              verification_message := Some RegisteredInMintic\<rparr>),
         AffiliationSaved ''abc''
           ((pending_affiliation lettered_registration)\<lparr>status := AFFILIATED,
              documents_ready := True\<rparr>),
         AffiliationSaved ''abc''
           ((pending_affiliation lettered_registration)\<lparr>status := TRANSFERRING,
              transfer_destination_operator_id := Some ''op-2'',
              transfer_destination_operator_name := Some ''Operator Two'',
              transfer_destination_api_url := Some ''http://op-2/receive'',
              transfer_started_at := Some 7, documents_ready := True\<rparr>)]\<rparr>"
  unfolding lettered_ready_world_def lettered_pending_world_eq
  by (simp add: complete_transfer_after_documents_def handle_register_citizen_completed_def
        send_transfer_def registered_201_def Let_def py_int_abc sample_env_def sample_target_def
        save_citizen_def save_affiliation_def pending_affiliation_def)

subsection \<open>The completion gate on a transfer that has no callback URL\<close>

text \<open>
  For an id \<^verbatim>\<open>int()\<close> accepts the gate behaves as C10 says: with the affiliation
  TRANSFERRING, the documents ready, the citizen verified and the callback URL null or
  empty, it finalizes the rows, posts nothing, emits affiliation.created and succeeds.
  The rows are finalized and nothing is posted for every id.
\<close>

lemma check_gate_without_callback:
  assumes "citizens w cid = Some c" and "affiliations w cid = Some a"
    and "status a = TRANSFERRING" and "documents_ready a" and "is_verified c"
    and "transfer_confirmation_url a = None \<or> transfer_confirmation_url a = Some []"
  shows "citizens (snd (check_and_complete_transfer e cid w))
           = (citizens w)(cid \<mapsto> c\<lparr>is_registered := True\<rparr>)"
    and "affiliations (snd (check_and_complete_transfer e cid w))
           = (affiliations w)(cid \<mapsto>
                a\<lparr>status := AFFILIATED, transfer_completed_at := Some (clock e)\<rparr>)"
    and "posts (trace (snd (check_and_complete_transfer e cid w))) = posts (trace w)"
    and "py_int cid = Some n \<Longrightarrow>
         fst (check_and_complete_transfer e cid w) = ok (TransferCompleted cid) \<and>
         trace (snd (check_and_complete_transfer e cid w)) =
           trace w @
           [CitizenSaved cid (c\<lparr>is_registered := True\<rparr>),
            AffiliationSaved cid
              (a\<lparr>status := AFFILIATED, transfer_completed_at := Some (clock e)\<rparr>),
            Published (AffiliationCreated n) (broker e (AffiliationCreated n))]"
  using assms
  by (auto simp: check_and_complete_transfer_def Let_def posts_def split: option.splits)

text \<open>
  Claim C10, evaluated. Citizen \<^verbatim>\<open>abc\<close> is TRANSFERRING, documents ready, verified,
  callback URL null. \<^verbatim>\<open>check_and_complete_transfer\<close> writes the citizen as registered and
  the affiliation as AFFILIATED with \<^verbatim>\<open>transfer_completed_at\<close> the clock, makes no POST,
  and then fails on \<^verbatim>\<open>int(citizen_id)\<close>: no affiliation.created is published and the
  call returns failure, with the rows already finalized.
\<close>

theorem gate_fails_after_finalizing_non_integer_id:
  "map_option status (affiliations lettered_ready_world ''abc'') = Some TRANSFERRING
   \<and> map_option documents_ready (affiliations lettered_ready_world ''abc'') = Some True
   \<and> map_option transfer_confirmation_url (affiliations lettered_ready_world ''abc'') = Some None
   \<and> map_option is_verified (citizens lettered_ready_world ''abc'') = Some True
   \<and> fst (check_and_complete_transfer sample_env ''abc'' lettered_ready_world)
       = fail (ErrorCheckingCompletion ValueError)
   \<and> success (fst (check_and_complete_transfer sample_env ''abc'' lettered_ready_world)) = False
   \<and> map_option is_registered
        (citizens (snd (check_and_complete_transfer sample_env ''abc'' lettered_ready_world))
           ''abc'') = Some True
   \<and> map_option status
        (affiliations (snd (check_and_complete_transfer sample_env ''abc'' lettered_ready_world))
           ''abc'') = Some AFFILIATED
   \<and> map_option transfer_completed_at
        (affiliations (snd (check_and_complete_transfer sample_env ''abc'' lettered_ready_world))
           ''abc'') = Some (Some 7)
   \<and> trace (snd (check_and_complete_transfer sample_env ''abc'' lettered_ready_world))
       = trace lettered_ready_world @
         [CitizenSaved ''abc''
            ((registered_citizen lettered_registration)\<lparr>is_verified := True,
               verification_status := VERIFICATION_VERIFIED,
               verification_message := Some RegisteredInMintic\<rparr>),
          AffiliationSaved ''abc''
            ((pending_affiliation lettered_registration)\<lparr>status := AFFILIATED,
               transfer_destination_operator_id := Some ''op-2'',
               transfer_destination_operator_name := Some ''Operator Two'',
               transfer_destination_api_url := Some ''http://op-2/receive'',
               transfer_started_at := Some 7, transfer_completed_at := Some 7,
               documents_ready := True\<rparr>)]"
  unfolding lettered_ready_world_eq
  by (simp add: check_and_complete_transfer_def Let_def py_int_abc fail_def sample_env_def
        save_citizen_def save_affiliation_def pending_affiliation_def registered_citizen_def)

subsection \<open>A confirmed outgoing transfer\<close>

lemma emission_after_deletion_detects:
  "emission_after_deletion [CitizenDeleted cid, Published ev accepted]"
  by simp

text \<open>
  For a known citizen whose id \<^verbatim>\<open>int()\<close> accepts the confirmation with
  \<^verbatim>\<open>req_status = 1\<close> does what C7 says, in that order; and no call of the operation
  publishes after a deletion.
\<close>

lemma confirmation_success_world:
  assumes "citizens w cid = Some c" and "affiliations w cid = Some a" and "py_int cid = Some n"
  shows "handle_transfer_confirmation e cid 1 w =
     (ok (TransferredAndDeleted cid),
      w\<lparr>citizens := (citizens w)(cid := None),
        affiliations := (affiliations w)(cid := None),
        trace := trace w @
          [AffiliationSaved cid
             (a\<lparr>status := TRANSFERRED, transfer_completed_at := Some (clock e)\<rparr>),
           Published (UserTransferred n) (broker e (UserTransferred n)),
           AffiliationDeleted cid,
           CitizenDeleted cid]\<rparr>)"
  using assms
  by (simp add: handle_transfer_confirmation_def Let_def save_affiliation_def publish_def
        delete_affiliation_row_def delete_citizen_row_def)

lemma confirmation_never_emits_after_deleting:
  "\<not> emission_after_deletion
       (drop (length (trace w)) (trace (snd (handle_transfer_confirmation e cid req_status w))))"
  by (auto simp: handle_transfer_confirmation_def Let_def split: option.splits)

text \<open>
  The direct deletion of the unregister.citizen.completed handler wraps the same
  publication in its own \<^verbatim>\<open>try\<close>: on the id \<^verbatim>\<open>abc\<close> it publishes nothing and still
  deletes the affiliation and then the citizen.
\<close>

lemma direct_deletion_survives_non_integer_id:
  "handle_unregister_citizen_completed sample_env
     \<lparr>uc_id = ''abc'', uc_success = True, uc_message = ''unregistered'',
      uc_error_message = None\<rparr> lettered_pending_world =
   \<lparr>citizens = Map.empty, affiliations = Map.empty,
    trace = trace lettered_pending_world @ [AffiliationDeleted ''abc'', CitizenDeleted ''abc'']\<rparr>"
  unfolding lettered_pending_world_eq
  by (simp add: handle_unregister_citizen_completed_def Let_def py_int_abc
        pending_affiliation_def delete_affiliation_row_def delete_citizen_row_def)

text \<open>
  Claim C7, evaluated. Citizen \<^verbatim>\<open>abc\<close> is known, as \<^verbatim>\<open>register_citizen\<close> left it.
  \<^verbatim>\<open>handle_transfer_confirmation\<close> with \<^verbatim>\<open>req_status = 1\<close> saves the affiliation as
  TRANSFERRED with \<^verbatim>\<open>transfer_completed_at\<close> the clock and then fails on
  \<^verbatim>\<open>int(citizen_id)\<close>: user.transferred is not emitted, neither row is deleted, and the
  call returns failure.
\<close>

theorem confirmation_stops_on_non_integer_id:
  "citizens lettered_pending_world ''abc'' = Some (registered_citizen lettered_registration)
   \<and> affiliations lettered_pending_world ''abc''
       = Some (pending_affiliation lettered_registration)
   \<and> handle_transfer_confirmation sample_env ''abc'' 1 lettered_pending_world =
       (fail (ErrorHandlingConfirmation ValueError),
        lettered_pending_world
          \<lparr>affiliations := [''abc'' \<mapsto>
             (pending_affiliation lettered_registration)\<lparr>status := TRANSFERRED,
                transfer_completed_at := Some 7\<rparr>],
           trace := trace lettered_pending_world @
             [AffiliationSaved ''abc''
                ((pending_affiliation lettered_registration)\<lparr>status := TRANSFERRED,
                   transfer_completed_at := Some 7\<rparr>)]\<rparr>)
   \<and> citizens (snd (handle_transfer_confirmation sample_env ''abc'' 1 lettered_pending_world))
        ''abc''
       = Some (registered_citizen lettered_registration)
   \<and> filter is_publication
        (trace (snd (handle_transfer_confirmation sample_env ''abc'' 1 lettered_pending_world)))
       = []
   \<and> filter is_deletion
        (trace (snd (handle_transfer_confirmation sample_env ''abc'' 1 lettered_pending_world)))
       = []"
  unfolding lettered_pending_world_eq
  by (simp add: handle_transfer_confirmation_def Let_def py_int_abc sample_env_def
        save_affiliation_def)

subsection \<open>The handoff POST of an outgoing transfer\<close>

lemma continue_tables:
  "citizens (snd (continue_transfer_after_unregister e cid w)) = citizens w"
  "affiliations (snd (continue_transfer_after_unregister e cid w)) = affiliations w"
  by (auto simp: continue_transfer_after_unregister_def post_transfer_def Let_def
           split: option.splits)

lemma continue_result:
  assumes "citizens w cid = Some c" and "affiliations w cid = Some a"
    and "status a = TRANSFERRING" and "py_int cid = Some n"
    and "transfer_destination_api_url a = Some u" and "u \<noteq> []"
    and "http_post e u
           (TransferBody n (name c) (email c) (document_service e cid)
              (TRANSFER_CONFIRMATION_URL e)) = Some code"
  shows "fst (continue_transfer_after_unregister e cid w) =
           (if code = 200 \<or> code = 201 then ok (TransferSent cid)
            else fail (FailedToSendTransfer code))"
  using assms
  by (simp add: continue_transfer_after_unregister_def post_transfer_def Let_def truthy_def)

text \<open>
  Claim C6, amended. When \<^verbatim>\<open>continue_transfer_after_unregister\<close> posts the handoff to
  \<^verbatim>\<open>transfer_destination_api_url\<close> and the destination answers, the call succeeds exactly
  when the status code is 200 or 201. Every other answer (every non-2xx status, and the
  2xx statuses other than 200 and 201) returns failure. In both cases nothing is written:
  the citizen and the affiliation are retained as they were, status TRANSFERRING.
\<close>

theorem handoff_succeeds_on_200_or_201_only:
  assumes "citizens w cid = Some c" and "affiliations w cid = Some a"
    and "status a = TRANSFERRING" and "py_int cid = Some n"
    and "transfer_destination_api_url a = Some u" and "u \<noteq> []"
    and "http_post e u
           (TransferBody n (name c) (email c) (document_service e cid)
              (TRANSFER_CONFIRMATION_URL e)) = Some code"
  shows "citizens (snd (continue_transfer_after_unregister e cid w)) = citizens w
       \<and> affiliations (snd (continue_transfer_after_unregister e cid w)) = affiliations w
       \<and> (success (fst (continue_transfer_after_unregister e cid w))
            \<longleftrightarrow> code = 200 \<or> code = 201)
       \<and> (code < 200 \<or> 300 \<le> code \<longrightarrow>
            \<not> success (fst (continue_transfer_after_unregister e cid w)))"
  by (auto simp: continue_tables continue_result [OF assms] ok_def fail_def)

text \<open>Witness for C6: the handoff of citizen 111 answered with 200.\<close>

theorem handoff_succeeds_on_200_or_201_only_witness:
  "status (the (affiliations outgoing_world ''111'')) = TRANSFERRING
   \<and> http_post sample_env ''http://op-2/receive''
        (TransferBody 111 ''Ana'' ''ana@example.com'' [] ''http://op-1/confirm'') = Some 200
   \<and> success (fst (continue_transfer_after_unregister sample_env ''111'' outgoing_world))
   \<and> affiliations (snd (continue_transfer_after_unregister sample_env ''111'' outgoing_world))
       = affiliations outgoing_world
   \<and> citizens (snd (continue_transfer_after_unregister sample_env ''111'' outgoing_world))
       = citizens outgoing_world"
proof -
  let ?a = "sample_affiliation\<lparr>status := TRANSFERRING,
           transfer_destination_operator_id := Some ''op-2'',
           transfer_destination_operator_name := Some ''Operator Two'',
           transfer_destination_api_url := Some ''http://op-2/receive'',
           transfer_started_at := Some 7\<rparr>"
  have c: "citizens outgoing_world ''111'' = Some sample_citizen"
    by (simp add: outgoing_world_def)
  have a: "affiliations outgoing_world ''111'' = Some ?a"
    by (simp add: outgoing_world_def)
  have s: "status ?a = TRANSFERRING" by simp
  have u: "transfer_destination_api_url ?a = Some ''http://op-2/receive''" by simp
  have ne: "''http://op-2/receive'' \<noteq> []" by simp
  have p: "http_post sample_env ''http://op-2/receive''
        (TransferBody 111 (name sample_citizen) (email sample_citizen)
           (document_service sample_env ''111'') (TRANSFER_CONFIRMATION_URL sample_env)) = Some 200"
    by (simp add: sample_env_def)
  have p': "http_post sample_env ''http://op-2/receive''
        (TransferBody 111 ''Ana'' ''ana@example.com'' [] ''http://op-1/confirm'') = Some 200"
    by (simp add: sample_env_def)
  from handoff_succeeds_on_200_or_201_only [OF c a s py_int_111 u ne p] a p'
  show ?thesis by simp
qed

text \<open>
  Counterexample to C6 as stated: the destination answers 204, a 2xx status, and the call
  returns failure.
\<close>

theorem handoff_204_counterexample:
  "status (the (affiliations outgoing_world ''111'')) = TRANSFERRING
   \<and> http_post no_content_env ''http://op-2/receive''
        (TransferBody 111 ''Ana'' ''ana@example.com'' [] ''http://op-1/confirm'') = Some 204
   \<and> (200::int) \<le> 204 \<and> (204::int) < 300
   \<and> continue_transfer_after_unregister no_content_env ''111'' outgoing_world =
       (fail (FailedToSendTransfer 204),
        outgoing_world\<lparr>trace :=
          [HttpPost ''http://op-2/receive''
             (TransferBody 111 ''Ana'' ''ana@example.com'' [] ''http://op-1/confirm'')
             (Some 204)]\<rparr>)
   \<and> \<not> success (fst (continue_transfer_after_unregister no_content_env ''111'' outgoing_world))"
  by (simp add: continue_transfer_after_unregister_def post_transfer_def Let_def truthy_def
        outgoing_world_def no_content_env_def sample_env_def sample_citizen_def
        sample_affiliation_def py_int_111 fail_def)

subsection \<open>Registration: two inserts and an event\<close>

text \<open>
  On the intended path, an id that is not stored, a negative external check, both inserts
  accepted and an id \<^verbatim>\<open>int()\<close> accepts: \<^verbatim>\<open>register_citizen\<close> writes the Citizen
  (registered, not verified, verification pending), then the Affiliation (PENDING), then
  emits register.requested, and returns success whether or not the broker accepted that
  event; a failed emission undoes nothing.
\<close>

lemma register_world:
  assumes "citizens w (citizen_id cd) = None"
    and "\<not> fst (validate_citizen e (citizen_id cd))"
    and "\<not> insert_fault e CitizenTable (citizen_id cd)"
    and "\<not> insert_fault e AffiliationTable (citizen_id cd)"
    and "py_int (citizen_id cd) = Some n"
  shows "register_citizen e cd w =
     (ok RegisteredLocally,
      w\<lparr>citizens := (citizens w)(citizen_id cd \<mapsto> registered_citizen cd),
        affiliations := (affiliations w)(citizen_id cd \<mapsto> pending_affiliation cd),
        trace := trace w @
          [CitizenSaved (citizen_id cd) (registered_citizen cd),
           Published (AffiliationCreated n) (broker e (AffiliationCreated n)),
           AffiliationSaved (citizen_id cd) (pending_affiliation cd),
           Published
             (RegisterCitizenRequested n (cd_name cd) (cd_address cd) (cd_email cd)
                (cd_operator_id cd) (cd_operator_name cd))
             (broker e
                (RegisterCitizenRequested n (cd_name cd) (cd_address cd) (cd_email cd)
                   (cd_operator_id cd) (cd_operator_name cd)))]\<rparr>)"
  using assms
  by (simp add: register_citizen_def already_registered_def Let_def registered_citizen_def
        pending_affiliation_def create_citizen_def citizen_post_save_def save_citizen_def
        save_affiliation_def publish_def)

text \<open>
  The state of the first failing input is one the operations reach: citizen 111 registers,
  and register.citizen.completed arrives with status code 501.
\<close>

lemma failed_world_reached:
  "citizens (handle_register_citizen_completed sample_env \<lparr>rc_id = ''111'', statusCode = 501\<rparr>
               (snd (register_citizen sample_env sample_registration empty_world)))
     = citizens failed_world
   \<and> affiliations (handle_register_citizen_completed sample_env
                      \<lparr>rc_id = ''111'', statusCode = 501\<rparr>
                      (snd (register_citizen sample_env sample_registration empty_world)))
     = affiliations failed_world"
proof -
  have a: "citizens empty_world (citizen_id sample_registration) = None"
    by (simp add: empty_world_def)
  have b: "\<not> fst (validate_citizen sample_env (citizen_id sample_registration))"
    by (simp add: validate_citizen_def sample_env_def)
  have c: "\<not> insert_fault sample_env CitizenTable (citizen_id sample_registration)"
    and d: "\<not> insert_fault sample_env AffiliationTable (citizen_id sample_registration)"
    by (simp_all add: sample_env_def)
  have n: "py_int (citizen_id sample_registration) = Some 111"
    by (simp add: sample_registration_def py_int_111)
  show ?thesis
    unfolding register_world [OF a b c d n]
    by (simp add: handle_register_citizen_completed_def Let_def sample_registration_def
          registered_citizen_def pending_affiliation_def failed_world_def sample_citizen_def
          sample_affiliation_def empty_world_def)
qed

text \<open>
  The sibling \<^verbatim>\<open>receive_transfer\<close> undoes its first insert when the second is refused:
  no row of the citizen is left.
\<close>

lemma receive_transfer_compensates:
  "receive_transfer affiliation_fault_env sample_transfer empty_world =
     (fail (ErrorProcessingTransfer DatabaseError),
      \<lparr>citizens = Map.empty, affiliations = Map.empty,
       trace = [CitizenSaved ''999''
                  (received_citizen affiliation_fault_env ''Luis'' ''luis@example.com''),
                CitizenDeleted ''999'']\<rparr>)"
  by (simp add: receive_transfer_def Let_def affiliation_fault_env_def sample_env_def
        sample_transfer_def empty_world_def create_citizen_def citizen_post_save_def
        save_citizen_def delete_citizen_row_def received_citizen_def)

text \<open>
  Claim C8, evaluated at two inputs. First: citizen 111 is stored with verification failed,
  so the id is not rejected as already registered, and the external check is negative;
  the insert then violates the uniqueness of \<^verbatim>\<open>citizen_id\<close>, and the operation returns
  failure having created and emitted nothing. Second: citizen 111 is new, and the storage
  layer refuses the Affiliation insert; the operation returns failure and the Citizen it
  had inserted stays, without an affiliation: the two inserts are not one transaction.
\<close>

theorem register_citizen_is_not_transactional:
  "already_registered failed_world (citizen_id sample_registration) = None
   \<and> fst (validate_citizen sample_env (citizen_id sample_registration)) = False
   \<and> register_citizen sample_env sample_registration failed_world
       = (fail (ErrorRegistering IntegrityError), failed_world)
   \<and> citizens empty_world (citizen_id sample_registration) = None
   \<and> fst (validate_citizen affiliation_fault_env (citizen_id sample_registration)) = False
   \<and> register_citizen affiliation_fault_env sample_registration empty_world
       = (fail (ErrorRegistering DatabaseError),
          \<lparr>citizens = [''111'' \<mapsto> registered_citizen sample_registration],
           affiliations = Map.empty,
           trace = [CitizenSaved ''111'' (registered_citizen sample_registration),
                    Published (AffiliationCreated 111) True]\<rparr>)"
  by (simp add: register_citizen_def already_registered_def validate_citizen_def Let_def
        failed_world_def empty_world_def sample_registration_def sample_env_def
        affiliation_fault_env_def sample_citizen_def py_int_111 registered_citizen_def
        create_citizen_def citizen_post_save_def save_citizen_def publish_def)

subsection \<open>Rolling back an outgoing transfer\<close>

text \<open>
  The two rollbacks of \<^verbatim>\<open>send_transfer\<close>'s first step, for any citizen: the one inside
  \<^verbatim>\<open>send_transfer\<close> (the broker refused the unregister request) resets the status and
  clears the destination operator id and name, and keeps the destination API URL and the
  start timestamp; the one of the unregister.citizen.completed handler resets the status
  and the citizen's \<^verbatim>\<open>pending_deletion\<close>, and touches no destination field.
\<close>

lemma send_transfer_publish_failure:
  assumes "citizens w cid = Some c" and "affiliations w cid = Some a"
    and "status a = AFFILIATED" and "py_int cid = Some n"
    and "\<not> broker e (UnregisterCitizenRequested n (OPERATOR_ID e) (OPERATOR_NAME e))"
  shows "fst (send_transfer e cid tgt w) = fail FailedToInitiateTransfer"
    and "affiliations (snd (send_transfer e cid tgt w)) cid =
           Some (a\<lparr>status := AFFILIATED,
                   transfer_destination_operator_id := None,
                   transfer_destination_operator_name := None,
                   transfer_destination_api_url := Some (tgt_api_url tgt),
                   transfer_started_at := Some (clock e)\<rparr>)"
  using assms
  by (auto simp: send_transfer_def Let_def publish_def intro!: affiliation.equality)

lemma unregister_failure_tables:
  assumes "citizens w (uc_id m) = Some c" and "affiliations w (uc_id m) = Some a"
    and "uc_id m \<noteq> []" and "\<not> uc_success m"
  shows "affiliations (handle_unregister_citizen_completed e m w) (uc_id m)
           = Some (a\<lparr>status := AFFILIATED\<rparr>)"
    and "map_option pending_deletion
           (citizens (handle_unregister_citizen_completed e m w) (uc_id m)) = Some False"
  using assms
  by (simp_all add: handle_unregister_citizen_completed_def Let_def)

lemma send_sample:
  "send_transfer sample_env ''111'' sample_target affiliated_world =
     (ok (TransferInitiated ''111''),
      outgoing_world\<lparr>trace :=
        [AffiliationSaved ''111''
           (sample_affiliation\<lparr>status := TRANSFERRING,
              transfer_destination_operator_id := Some ''op-2'',
              transfer_destination_operator_name := Some ''Operator Two'',
              transfer_destination_api_url := Some ''http://op-2/receive'',
              transfer_started_at := Some 7\<rparr>),
         Published (UnregisterCitizenRequested 111 ''op-1'' ''Operator One'') True]\<rparr>)"
  by (simp add: send_transfer_def Let_def affiliated_world_def outgoing_world_def
        sample_env_def sample_target_def sample_affiliation_def py_int_111
        save_affiliation_def publish_def)

text \<open>
  Claim C4, evaluated. Citizen 111 is AFFILIATED with no destination recorded;
  \<^verbatim>\<open>send_transfer\<close> to operator op-2 succeeds; unregister.citizen.completed then arrives
  with \<^verbatim>\<open>success = false\<close>. Afterwards the status is AFFILIATED and \<^verbatim>\<open>pending_deletion\<close>
  is false, but the destination operator id, name and API URL (and the start timestamp)
  that \<^verbatim>\<open>send_transfer\<close> recorded are all still there: the affiliation is not the one
  before the transfer.
\<close>

theorem unregister_failure_keeps_destination:
  "affiliations affiliated_world ''111'' = Some sample_affiliation
   \<and> success (fst (send_transfer sample_env ''111'' sample_target affiliated_world))
   \<and> affiliations
        (handle_unregister_citizen_completed sample_env unregister_failed
           (snd (send_transfer sample_env ''111'' sample_target affiliated_world))) ''111''
       = Some (sample_affiliation\<lparr>status := AFFILIATED,
                 transfer_destination_operator_id := Some ''op-2'',
                 transfer_destination_operator_name := Some ''Operator Two'',
                 transfer_destination_api_url := Some ''http://op-2/receive'',
                 transfer_started_at := Some 7\<rparr>)
   \<and> map_option pending_deletion
        (citizens
           (handle_unregister_citizen_completed sample_env unregister_failed
              (snd (send_transfer sample_env ''111'' sample_target affiliated_world))) ''111'')
       = Some False"
proof -
  have pre: "affiliations affiliated_world ''111'' = Some sample_affiliation"
    by (simp add: affiliated_world_def)
  have sent: "success (fst (send_transfer sample_env ''111'' sample_target affiliated_world))"
    by (simp add: send_sample ok_def)
  have rolled:
    "handle_unregister_citizen_completed sample_env unregister_failed
       (snd (send_transfer sample_env ''111'' sample_target affiliated_world)) =
     \<lparr>citizens = [''111'' \<mapsto>
         sample_citizen\<lparr>verification_message :=
           Some (UnregisterFailed ''MINTIC unregister failed'')\<rparr>],
      affiliations = [''111'' \<mapsto>
         sample_affiliation\<lparr>status := AFFILIATED,
           transfer_destination_operator_id := Some ''op-2'',
           transfer_destination_operator_name := Some ''Operator Two'',
           transfer_destination_api_url := Some ''http://op-2/receive'',
           transfer_started_at := Some 7\<rparr>],
      trace =
        [AffiliationSaved ''111''
           (sample_affiliation\<lparr>status := TRANSFERRING,
              transfer_destination_operator_id := Some ''op-2'',
              transfer_destination_operator_name := Some ''Operator Two'',
              transfer_destination_api_url := Some ''http://op-2/receive'',
              transfer_started_at := Some 7\<rparr>),
         Published (UnregisterCitizenRequested 111 ''op-1'' ''Operator One'') True,
         CitizenSaved ''111''
           (sample_citizen\<lparr>verification_message :=
              Some (UnregisterFailed ''MINTIC unregister failed'')\<rparr>),
         AffiliationSaved ''111''
           (sample_affiliation\<lparr>status := AFFILIATED,
              transfer_destination_operator_id := Some ''op-2'',
              transfer_destination_operator_name := Some ''Operator Two'',
              transfer_destination_api_url := Some ''http://op-2/receive'',
              transfer_started_at := Some 7\<rparr>)]\<rparr>"
    unfolding send_sample
    by (simp add: handle_unregister_citizen_completed_def Let_def
          unregister_failed_def outgoing_world_def sample_affiliation_def
          sample_citizen_def save_citizen_def save_affiliation_def)
  show ?thesis
    unfolding rolled using pre sent by (simp add: sample_citizen_def)
qed

text \<open>
  Claim C5, evaluated. Citizen 111 is AFFILIATED with no destination recorded;
  \<^verbatim>\<open>send_transfer\<close> to operator op-2 runs while the broker refuses the event. It returns
  failure with the status back to AFFILIATED and the destination operator id and name
  cleared, but \<^verbatim>\<open>transfer_destination_api_url\<close> and \<^verbatim>\<open>transfer_started_at\<close> keep what the
  first step wrote: the affiliation differs from the one before the call.
\<close>

theorem publish_failure_keeps_api_url:
  "affiliations affiliated_world ''111'' = Some sample_affiliation
   \<and> fst (send_transfer broker_down_env ''111'' sample_target affiliated_world)
       = fail FailedToInitiateTransfer
   \<and> affiliations (snd (send_transfer broker_down_env ''111'' sample_target affiliated_world))
        ''111''
       = Some (sample_affiliation\<lparr>transfer_destination_api_url := Some ''http://op-2/receive'',
                 transfer_started_at := Some 7\<rparr>)
   \<and> affiliations (snd (send_transfer broker_down_env ''111'' sample_target affiliated_world))
        ''111''
       \<noteq> affiliations affiliated_world ''111''"
  by (simp add: send_transfer_def Let_def affiliated_world_def broker_down_env_def
        sample_env_def sample_target_def sample_affiliation_def py_int_111
        save_affiliation_def publish_def)

end
